theory Spec2Isabelle
  imports Complex_Main "HOL-Library.AList"
begin

section \<open>Directional-change backtests: MaximizePnLBot and AdvancedDCBot\<close>

text \<open>
  The repository holds two near-duplicate backtest engines,
  \<^verbatim>\<open>MaximizePnLBot\<close> (Assignment-1/Maximize_PnL.py) and \<^verbatim>\<open>AdvancedDCBot\<close>
  (Assignment-1/enhanced_arbitrage_full.py). Both walk the rows of a data frame once and
  keep the same state variables. This theory embeds both \<^verbatim>\<open>run_backtest\<close> methods.

  Numbers. Python floats are modelled by the reals: rounding and overflow are not
  modelled. The price columns and the parameters are finite. An indicator cell may be NaN
  (the warm-up rows of a rolling mean), and every comparison with NaN is false.
\<close>

subsection \<open>Data model\<close>

datatype float64 = NaN | Fin real

fun isnan :: "float64 \<Rightarrow> bool" where
  "isnan NaN = True"
| "isnan (Fin x) = False"

text \<open>\<^verbatim>\<open>a > b\<close> and \<open>a < b\<close> on floats.\<close>

fun fgt :: "float64 \<Rightarrow> float64 \<Rightarrow> bool" where
  "fgt (Fin a) (Fin b) = (a > b)"
| "fgt _ _ = False"

fun flt :: "float64 \<Rightarrow> float64 \<Rightarrow> bool" where
  "flt (Fin a) (Fin b) = (a < b)"
| "flt _ _ = False"

datatype StrategyMode = FULL_AI | NO_CLASSIFIER | NO_VOLATILITY_FILTER | BASELINE

text \<open>The entries of the \<^verbatim>\<open>params\<close> dictionary that the two classes read.\<close>

record params =
  mode :: StrategyMode
  dc_threshold :: real
  volume :: real
  y_value :: real
  rsi_overbought :: real
  volatility_threshold :: real

text \<open>One row of the data frame, as \<^verbatim>\<open>iterrows\<close> yields it.\<close>

record row =
  date :: int
  high :: real
  low :: real
  close :: real
  atr :: float64
  sma :: float64
  rsi :: float64
  macd :: float64
  macdsignal :: float64
  stoch_k :: float64
  stoch_d :: float64
  adx :: float64

text \<open>
  A trade is a Python dictionary: an association list in insertion order.
  \<^verbatim>\<open>d.update({k: v, ...})\<close> overwrites a present key in place and appends a new one.
\<close>

datatype pyval = Float real | Index nat | Timestamp int

type_synonym trade = "(string \<times> pyval) list"

definition dict_update :: "trade \<Rightarrow> (string \<times> pyval) list \<Rightarrow> trade" where
  "dict_update d kvs = foldl (\<lambda>d' kv. AList.update (fst kv) (snd kv) d') d kvs"

text \<open>
  Ghost instrumentation: one event for each execution of the entry block, of the exit
  block and of the force-close block (where \<^verbatim>\<open>AdvancedDCBot\<close> prints its three
  messages). No branch of the model reads it.
\<close>

datatype event = Opened nat | Closed nat | ForceClosed nat

text \<open>
  The state of a backtest. \<^verbatim>\<open>MaximizePnLBot\<close> keeps it in attributes of the object;
  \<^verbatim>\<open>AdvancedDCBot\<close> keeps \<open>total_pnl\<close> and \<open>trades\<close> in attributes and the rest in
  locals of \<^verbatim>\<open>run_backtest\<close>, where \<open>last_extreme\<close> is called
  \<^verbatim>\<open>last_extreme_price\<close> and the dictionary \<open>trade\<close> holds the position in progress
  (\<^verbatim>\<open>MaximizePnLBot\<close> has no such variable and leaves the field alone).
\<close>

record bot =
  total_pnl :: real
  trades :: "trade list"
  current_trend :: int
  last_extreme :: real
  max_overshoot :: real
  is_position_open :: bool
  entry_price :: real
  is_trading_paused :: bool
  trade :: trade
  events :: "event list"

text \<open>
  \<open>ValueError\<close>: the constructor of \<^verbatim>\<open>MaximizePnLBot\<close> rejects an empty frame.
  \<open>ZeroDivision\<close>: \<^verbatim>\<open>MaximizePnLBot\<close> divides by a zero denominator; on Python floats
  (what \<^verbatim>\<open>iterrows\<close> yields for a frame with a date column) this raises
  ZeroDivisionError, on a \<^verbatim>\<open>numpy.float64\<close> denominator (the initial extremum read
  with \<^verbatim>\<open>iloc\<close>) it yields inf or nan with a warning; the model stops the run there.
  \<open>IndexError\<close>: \<^verbatim>\<open>self.trades[-1]\<close> on an empty ledger.
\<close>

datatype error = ValueError | ZeroDivision | IndexError

definition use_volatility_filter :: "params \<Rightarrow> bool" where
  "use_volatility_filter p = (mode p \<in> {FULL_AI, NO_CLASSIFIER})"

definition use_classifier :: "params \<Rightarrow> bool" where
  "use_classifier p = (mode p \<in> {FULL_AI, NO_VOLATILITY_FILTER})"

definition dynamic_exit_threshold :: "params \<Rightarrow> real \<Rightarrow> real" where
  "dynamic_exit_threshold p mo = dc_threshold p * y_value p * exp (- mo)"

definition initial_state :: "row \<Rightarrow> bot" where
  "initial_state r0 =
     \<lparr>total_pnl = 0, trades = [], current_trend = - 1, last_extreme = low r0,
      max_overshoot = 1 / 10000, is_position_open = False, entry_price = 0,
      is_trading_paused = False, trade = [], events = []\<rparr>"

subsection \<open>MaximizePnLBot\<close>

text \<open>The two confirmation expressions of lines 155-167.\<close>

definition relaxed_pass :: "params \<Rightarrow> row \<Rightarrow> bool" where
  "relaxed_pass p r =
     ((if \<not> isnan (sma r) then fgt (Fin (high r)) (sma r) else True)
      \<and> flt (rsi r) (Fin (rsi_overbought p))
      \<and> fgt (adx r) (Fin 10))"

definition strict_pass :: "real \<Rightarrow> params \<Rightarrow> row \<Rightarrow> bool" where
  "strict_pass adx_floor p r =
     (fgt (Fin (high r)) (sma r)
      \<and> flt (rsi r) (Fin (rsi_overbought p))
      \<and> fgt (macd r) (macdsignal r)
      \<and> fgt (stoch_k r) (stoch_d r)
      \<and> fgt (adx r) (Fin adx_floor))"

definition maximize_classifier_pass :: "params \<Rightarrow> row \<Rightarrow> bool" where
  "maximize_classifier_pass p r =
     (let classifier_pass = relaxed_pass p r
      in if use_classifier p then strict_pass 10 p r else classifier_pass)"

definition maximize_down :: "params \<Rightarrow> bot \<Rightarrow> nat \<Rightarrow> row \<Rightarrow> error + bot" where
  "maximize_down p s i r =
     (let s1 = (if low r < last_extreme s then s\<lparr>last_extreme := low r\<rparr> else s)
      in if high r \<ge> last_extreme s1 * (1 + dc_threshold p) then
           if is_trading_paused s1 then Inr s1
           else if maximize_classifier_pass p r then
             (let old_extreme = last_extreme s1
              in if old_extreme = 0 then Inl ZeroDivision
                 else Inr (s1\<lparr>entry_price := high r,
                              is_position_open := True,
                              last_extreme := high r,
                              max_overshoot :=
                                max (max_overshoot s1) ((high r - old_extreme) / old_extreme),
                              current_trend := 1,
                              trades := trades s1 @
                                [[(''entry_price'', Float (high r)), (''entry_idx'', Index i)]],
                              events := events s1 @ [Opened i]\<rparr>))
           else Inr s1
         else Inr s1)"

definition maximize_up :: "params \<Rightarrow> bot \<Rightarrow> nat \<Rightarrow> row \<Rightarrow> error + bot" where
  "maximize_up p s i r =
     (let s1 = (if high r > last_extreme s then s\<lparr>last_extreme := high r\<rparr> else s)
      in if is_position_open s1 then
           if entry_price s1 = 0 then Inl ZeroDivision
           else
             (let overshoot = (high r - entry_price s1) / entry_price s1;
                  s2 = s1\<lparr>max_overshoot := max (max_overshoot s1) overshoot\<rparr>
              in if low r \<le> last_extreme s2 * (1 - dynamic_exit_threshold p (max_overshoot s2))
                 then
                   (let exit_price = low r;
                        pnl = (exit_price - entry_price s2) * volume p
                    in if trades s2 = [] then Inl IndexError
                       else Inr (s2\<lparr>total_pnl := total_pnl s2 + pnl,
                                    trades := butlast (trades s2) @
                                      [dict_update (last (trades s2))
                                         [(''exit_price'', Float exit_price),
                                          (''pnl'', Float pnl),
                                          (''exit_idx'', Index i)]],
                                    is_position_open := False,
                                    current_trend := - 1,
                                    last_extreme := low r,
                                    events := events s2 @ [Closed i]\<rparr>))
                 else Inr s2)
         else Inr s1)"

definition maximize_step :: "params \<Rightarrow> bot \<Rightarrow> nat \<Rightarrow> row \<Rightarrow> error + bot" where
  "maximize_step p s i r =
     (if use_volatility_filter p \<and> fgt (atr r) (Fin (volatility_threshold p))
      then Inr (s\<lparr>is_trading_paused := True\<rparr>)
      else
        (let s0 = (if use_volatility_filter p then s\<lparr>is_trading_paused := False\<rparr> else s)
         in if current_trend s0 = - 1 then maximize_down p s0 i r
            else maximize_up p s0 i r))"

fun maximize_loop :: "params \<Rightarrow> nat \<Rightarrow> row list \<Rightarrow> bot \<Rightarrow> error + bot" where
  "maximize_loop p i [] s = Inr s"
| "maximize_loop p i (r # rs) s =
     (case maximize_step p s i r of
        Inl e \<Rightarrow> Inl e
      | Inr s' \<Rightarrow> maximize_loop p (Suc i) rs s')"

text \<open>
  The force-close block after the loop; it leaves \<open>is_position_open\<close> set.
  \<^verbatim>\<open>iloc[-1]\<close> and \<^verbatim>\<open>self.trades[-1]\<close> raise IndexError on an empty frame and on an
  empty ledger.
\<close>

definition maximize_force_close :: "params \<Rightarrow> row list \<Rightarrow> bot \<Rightarrow> error + bot" where
  "maximize_force_close p df s =
     (if is_position_open s then
        (let final_price = close (last df);
             pnl = (final_price - entry_price s) * volume p
         in if df = [] \<or> trades s = [] then Inl IndexError
            else Inr (s\<lparr>total_pnl := total_pnl s + pnl,
                        trades := butlast (trades s) @
                          [dict_update (last (trades s))
                             [(''exit_price'', Float final_price),
                              (''pnl'', Float pnl),
                              (''exit_idx'', Index (length df - 1))]],
                        events := events s @ [ForceClosed (length df - 1)]\<rparr>))
      else Inr s)"

text \<open>\<^verbatim>\<open>MaximizePnLBot(df, params)\<close>: an empty frame is rejected before any pass.\<close>

definition maximize_init :: "params \<Rightarrow> row list \<Rightarrow> error + bot" where
  "maximize_init p df = (case df of [] \<Rightarrow> Inl ValueError | r0 # _ \<Rightarrow> Inr (initial_state r0))"

text \<open>The state when \<^verbatim>\<open>run_backtest\<close> returns, and the pair it returns.\<close>

definition maximize_final :: "params \<Rightarrow> row list \<Rightarrow> error + bot" where
  "maximize_final p df =
     (case maximize_init p df of
        Inl e \<Rightarrow> Inl e
      | Inr s0 \<Rightarrow>
          (case maximize_loop p 0 df s0 of
             Inl e \<Rightarrow> Inl e
           | Inr s \<Rightarrow> maximize_force_close p df s))"

definition maximize_backtest :: "params \<Rightarrow> row list \<Rightarrow> error + (real \<times> trade list)" where
  "maximize_backtest p df =
     (case maximize_final p df of
        Inl e \<Rightarrow> Inl e
      | Inr s \<Rightarrow> Inr (total_pnl s, trades s))"

subsection \<open>AdvancedDCBot\<close>

definition advanced_classifier_pass :: "params \<Rightarrow> row \<Rightarrow> bool" where
  "advanced_classifier_pass p r = (if use_classifier p then strict_pass 25 p r else True)"

definition advanced_gate :: "params \<Rightarrow> bot \<Rightarrow> row \<Rightarrow> bot" where
  "advanced_gate p s r =
     (if use_volatility_filter p then
        (let is_high_volatility = fgt (atr r) (Fin (volatility_threshold p))
         in if is_high_volatility \<and> \<not> is_trading_paused s then s\<lparr>is_trading_paused := True\<rparr>
            else if \<not> is_high_volatility \<and> is_trading_paused s
                 then s\<lparr>is_trading_paused := False\<rparr>
            else s)
      else s)"

definition advanced_down :: "params \<Rightarrow> bot \<Rightarrow> nat \<Rightarrow> row \<Rightarrow> bot" where
  "advanced_down p s i r =
     (let s1 = (if low r < last_extreme s then s\<lparr>last_extreme := low r\<rparr> else s)
      in if high r \<ge> last_extreme s1 * (1 + dc_threshold p) then
           if is_trading_paused s1 then s1
           else if advanced_classifier_pass p r then
             (let old_extreme = last_extreme s1
              in s1\<lparr>entry_price := high r,
                    is_position_open := True,
                    current_trend := 1,
                    last_extreme := high r,
                    max_overshoot :=
                      max (max_overshoot s1)
                        (if old_extreme \<noteq> 0 then (high r - old_extreme) / old_extreme else 0),
                    trade := [(''entry_date'', Timestamp (date r)),
                              (''entry_price'', Float (high r)),
                              (''pnl'', Float 0)],
                    events := events s1 @ [Opened i]\<rparr>)
           else s1
         else s1)"

definition advanced_up :: "params \<Rightarrow> bot \<Rightarrow> nat \<Rightarrow> row \<Rightarrow> bot" where
  "advanced_up p s i r =
     (let s1 = (if high r > last_extreme s then s\<lparr>last_extreme := high r\<rparr> else s)
      in if is_position_open s1 then
           (let overshoot =
                  (if entry_price s1 \<noteq> 0 then (high r - entry_price s1) / entry_price s1 else 0);
                s2 = s1\<lparr>max_overshoot := max (max_overshoot s1) overshoot\<rparr>
            in if low r \<le> last_extreme s2 * (1 - dynamic_exit_threshold p (max_overshoot s2))
               then
                 (let exit_price = low r;
                      pnl = (exit_price - entry_price s2) * volume p;
                      t = dict_update (trade s2)
                            [(''exit_date'', Timestamp (date r)),
                             (''exit_price'', Float exit_price),
                             (''pnl'', Float pnl)]
                  in s2\<lparr>total_pnl := total_pnl s2 + pnl,
                        trade := t,
                        trades := trades s2 @ [t],
                        is_position_open := False,
                        current_trend := - 1,
                        last_extreme := low r,
                        events := events s2 @ [Closed i]\<rparr>)
               else s2)
         else s1)"

definition advanced_step :: "params \<Rightarrow> bot \<Rightarrow> nat \<Rightarrow> row \<Rightarrow> bot" where
  "advanced_step p s i r =
     (if isnan (sma r) then s
      else
        (let s0 = advanced_gate p s r
         in if current_trend s0 = - 1 then advanced_down p s0 i r
            else if current_trend s0 = 1 then advanced_up p s0 i r
            else s0))"

fun advanced_loop :: "params \<Rightarrow> nat \<Rightarrow> row list \<Rightarrow> bot \<Rightarrow> bot" where
  "advanced_loop p i [] s = s"
| "advanced_loop p i (r # rs) s = advanced_loop p (Suc i) rs (advanced_step p s i r)"

text \<open>
  The force-close block of \<^verbatim>\<open>AdvancedDCBot\<close>. The frame is not empty here:
  \<^verbatim>\<open>run_backtest\<close> has returned on an empty one, so \<open>final_row\<close> is its last row and
  \<open>n\<close> its length.
\<close>

definition advanced_force_close :: "params \<Rightarrow> row \<Rightarrow> nat \<Rightarrow> bot \<Rightarrow> bot" where
  "advanced_force_close p final_row n s =
     (if is_position_open s then
        (let final_price = close final_row;
             pnl = (final_price - entry_price s) * volume p;
             t = dict_update (trade s)
                   [(''exit_date'', Timestamp (date final_row)),
                    (''exit_price'', Float final_price),
                    (''pnl'', Float pnl)]
         in s\<lparr>total_pnl := total_pnl s + pnl,
               trade := t,
               trades := trades s @ [t],
               events := events s @ [ForceClosed (n - 1)]\<rparr>)
      else s)"

text \<open>
  The state when \<^verbatim>\<open>run_backtest\<close> of a fresh \<^verbatim>\<open>AdvancedDCBot\<close> reaches its last
  line on the frame \<open>r0 # rest\<close>, and the pair the method returns.
\<close>

definition advanced_final :: "params \<Rightarrow> row \<Rightarrow> row list \<Rightarrow> bot" where
  "advanced_final p r0 rest =
     advanced_force_close p (last (r0 # rest)) (length (r0 # rest))
       (advanced_loop p 0 (r0 # rest) (initial_state r0))"

definition advanced_backtest :: "params \<Rightarrow> row list \<Rightarrow> real \<times> trade list" where
  "advanced_backtest p df =
     (case df of
        [] \<Rightarrow> (0, [])
      | r0 # rest \<Rightarrow> (let s = advanced_final p r0 rest in (total_pnl s, trades s)))"

subsection \<open>Ledger and trace predicates, invariants, sample inputs\<close>

definition is_closed :: "trade \<Rightarrow> bool" where
  "is_closed t = (map_of t ''exit_price'' \<noteq> None)"

definition trade_pnl :: "trade \<Rightarrow> real" where
  "trade_pnl t = (case map_of t ''pnl'' of Some (Float g) \<Rightarrow> g | _ \<Rightarrow> 0)"

definition ledger_pnl :: "trade list \<Rightarrow> real" where
  "ledger_pnl ts = sum_list (map trade_pnl (filter is_closed ts))"

definition pnl_exact :: "params \<Rightarrow> trade \<Rightarrow> bool" where
  "pnl_exact p t =
     (case (map_of t ''entry_price'', map_of t ''exit_price'', map_of t ''pnl'') of
        (Some (Float e), Some (Float x), Some (Float g)) \<Rightarrow> g = (x - e) * volume p
      | _ \<Rightarrow> False)"

definition open_trades :: "trade list \<Rightarrow> nat" where
  "open_trades ts = length (filter (\<lambda>t. \<not> is_closed t) ts)"

fun replay :: "bool option \<Rightarrow> event \<Rightarrow> bool option" where
  "replay None e = None"
| "replay (Some b) (Opened i) = (if b then None else Some True)"
| "replay (Some b) (Closed i) = (if b then Some False else None)"
| "replay (Some b) (ForceClosed i) = (if b then Some False else None)"

definition position_trace :: "event list \<Rightarrow> bool option" where
  "position_trace es = foldl replay (Some False) es"

definition maximize_open_trade :: "real \<Rightarrow> nat \<Rightarrow> trade" where
  "maximize_open_trade e i = [(''entry_price'', Float e), (''entry_idx'', Index i)]"

definition maximize_closed_trade :: "real \<Rightarrow> nat \<Rightarrow> real \<Rightarrow> real \<Rightarrow> nat \<Rightarrow> trade" where
  "maximize_closed_trade e i x g j =
     [(''entry_price'', Float e), (''entry_idx'', Index i), (''exit_price'', Float x),
      (''pnl'', Float g), (''exit_idx'', Index j)]"

definition maximize_closed :: "params \<Rightarrow> trade \<Rightarrow> bool" where
  "maximize_closed p t = (\<exists>e i x j. t = maximize_closed_trade e i x ((x - e) * volume p) j)"

definition maximize_inv :: "params \<Rightarrow> bot \<Rightarrow> bool" where
  "maximize_inv p s =
     (current_trend s = (if is_position_open s then 1 else - 1)
      \<and> total_pnl s = ledger_pnl (trades s)
      \<and> position_trace (events s) = Some (is_position_open s)
      \<and> (\<exists>ts. list_all (maximize_closed p) ts
            \<and> (if is_position_open s
                then (\<exists>i. trades s = ts @ [maximize_open_trade (entry_price s) i])
                else trades s = ts)))"

definition advanced_open_trade :: "int \<Rightarrow> real \<Rightarrow> trade" where
  "advanced_open_trade d e =
     [(''entry_date'', Timestamp d), (''entry_price'', Float e), (''pnl'', Float 0)]"

definition advanced_closed_trade :: "int \<Rightarrow> real \<Rightarrow> real \<Rightarrow> int \<Rightarrow> real \<Rightarrow> trade" where
  "advanced_closed_trade d e g d' x =
     [(''entry_date'', Timestamp d), (''entry_price'', Float e), (''pnl'', Float g),
      (''exit_date'', Timestamp d'), (''exit_price'', Float x)]"

definition advanced_closed :: "params \<Rightarrow> trade \<Rightarrow> bool" where
  "advanced_closed p t = (\<exists>d e d' x. t = advanced_closed_trade d e ((x - e) * volume p) d' x)"

definition advanced_inv :: "params \<Rightarrow> bot \<Rightarrow> bool" where
  "advanced_inv p s =
     (current_trend s = (if is_position_open s then 1 else - 1)
      \<and> total_pnl s = ledger_pnl (trades s)
      \<and> position_trace (events s) = Some (is_position_open s)
      \<and> list_all (advanced_closed p) (trades s)
      \<and> (is_position_open s \<longrightarrow> (\<exists>d. trade s = advanced_open_trade d (entry_price s))))"

definition maximize_final_ok :: "params \<Rightarrow> bot \<Rightarrow> bool" where
  "maximize_final_ok p s =
     (total_pnl s = ledger_pnl (trades s)
      \<and> list_all (maximize_closed p) (trades s)
      \<and> position_trace (events s) = Some False)"

definition advanced_final_ok :: "params \<Rightarrow> bot \<Rightarrow> bool" where
  "advanced_final_ok p s =
     (total_pnl s = ledger_pnl (trades s)
      \<and> list_all (advanced_closed p) (trades s)
      \<and> position_trace (events s) = Some False)"

definition demo_params :: "StrategyMode \<Rightarrow> params" where
  "demo_params m =
     \<lparr>mode = m, dc_threshold = 1 / 100, volume = 100, y_value = 1 / 2,
      rsi_overbought = 70, volatility_threshold = 1 / 2\<rparr>"

definition bar :: "int \<Rightarrow> real \<Rightarrow> real \<Rightarrow> real \<Rightarrow> real \<Rightarrow> real \<Rightarrow> row" where
  "bar d h l c a x =
     \<lparr>date = d, high = h, low = l, close = c, atr = Fin a, sma = Fin 90, rsi = Fin 50,
      macd = Fin 1, macdsignal = Fin 0, stoch_k = Fin 60, stoch_d = Fin 50, adx = Fin x\<rparr>"

definition demo_signal :: "row list" where
  "demo_signal = [bar 0 102 100 101 (1 / 4) 30, bar 1 110 105 106 (1 / 4) 30]"

definition demo_forced :: "row list" where
  "demo_forced = [bar 0 102 100 101 (1 / 4) 30, bar 1 105 105 105 (1 / 4) 30]"

text \<open>The state of MaximizePnLBot and of AdvancedDCBot after the entry on the first demo bar.\<close>

definition demo_maximize_open :: bot where
  "demo_maximize_open =
     \<lparr>total_pnl = 0, trades = [maximize_open_trade 102 0], current_trend = 1,
      last_extreme = 102, max_overshoot = 1 / 50, is_position_open = True, entry_price = 102,
      is_trading_paused = False, trade = [], events = [Opened 0]\<rparr>"

definition demo_advanced_open :: bot where
  "demo_advanced_open =
     \<lparr>total_pnl = 0, trades = [], current_trend = 1,
      last_extreme = 102, max_overshoot = 1 / 50, is_position_open = True, entry_price = 102,
      is_trading_paused = False, trade = advanced_open_trade 0 102, events = [Opened 0]\<rparr>"

text \<open>
  The states after the second bar: closed by the exit signal (\<open>demo_signal\<close>), still open
  (\<open>demo_forced\<close>), and the states when \<^verbatim>\<open>run_backtest\<close> returns on \<open>demo_forced\<close>.
\<close>

definition demo_maximize_done :: bot where
  "demo_maximize_done =
     \<lparr>total_pnl = 300, trades = [maximize_closed_trade 102 0 105 300 1],
      current_trend = - 1, last_extreme = 105, max_overshoot = 4 / 51,
      is_position_open = False, entry_price = 102, is_trading_paused = False,
      trade = [], events = [Opened 0, Closed 1]\<rparr>"

definition demo_advanced_done :: bot where
  "demo_advanced_done =
     \<lparr>total_pnl = 300, trades = [advanced_closed_trade 0 102 300 1 105],
      current_trend = - 1, last_extreme = 105, max_overshoot = 4 / 51,
      is_position_open = False, entry_price = 102, is_trading_paused = False,
      trade = advanced_closed_trade 0 102 300 1 105, events = [Opened 0, Closed 1]\<rparr>"

definition demo_maximize_held :: bot where
  "demo_maximize_held = demo_maximize_open\<lparr>last_extreme := 105, max_overshoot := 1 / 34\<rparr>"

definition demo_advanced_held :: bot where
  "demo_advanced_held = demo_advanced_open\<lparr>last_extreme := 105, max_overshoot := 1 / 34\<rparr>"

definition demo_maximize_forced :: bot where
  "demo_maximize_forced =
     \<lparr>total_pnl = 300, trades = [maximize_closed_trade 102 0 105 300 1],
      current_trend = 1, last_extreme = 105, max_overshoot = 1 / 34,
      is_position_open = True, entry_price = 102, is_trading_paused = False,
      trade = [], events = [Opened 0, ForceClosed 1]\<rparr>"

definition demo_advanced_forced :: bot where
  "demo_advanced_forced =
     \<lparr>total_pnl = 300, trades = [advanced_closed_trade 0 102 300 1 105],
      current_trend = 1, last_extreme = 105, max_overshoot = 1 / 34,
      is_position_open = True, entry_price = 102, is_trading_paused = False,
      trade = advanced_closed_trade 0 102 300 1 105, events = [Opened 0, ForceClosed 1]\<rparr>"

text \<open>
  More sample inputs: a first bar that opens no position, a volatile bar, a bar whose ADX
  lies between the two floors, a bar whose ADX is below both, and bars with a zero and a
  negative low.
\<close>

definition demo_quiet :: row where
  "demo_quiet = bar 0 (201 / 2) 100 (501 / 5) (1 / 4) 30"

definition demo_volatile :: row where
  "demo_volatile = bar 1 100 90 95 (3 / 4) 30"

definition demo_zero :: row where
  "demo_zero =
     \<lparr>date = 0, high = 1, low = 0, close = 1 / 2, atr = Fin (1 / 4), sma = Fin (1 / 2),
      rsi = Fin 50, macd = Fin 1, macdsignal = Fin 0, stoch_k = Fin 60, stoch_d = Fin 50,
      adx = Fin 30\<rparr>"

definition demo_below :: row where
  "demo_below =
     \<lparr>date = 0, high = 0, low = - 1, close = 0, atr = Fin (1 / 4), sma = Fin (- 1),
      rsi = Fin 50, macd = Fin 1, macdsignal = Fin 0, stoch_k = Fin 60, stoch_d = Fin 50,
      adx = Fin 30\<rparr>"

text \<open>
  The state of MaximizePnLBot after a volatile first bar with low 100, which the gate has
  skipped, and the state after the entry on the calm bar that follows it.
\<close>

definition demo_maximize_paused :: bot where
  "demo_maximize_paused =
     (initial_state (bar 0 101 100 (201 / 2) (3 / 4) 30))\<lparr>is_trading_paused := True\<rparr>"

definition demo_maximize_open_late :: bot where
  "demo_maximize_open_late =
     demo_maximize_open\<lparr>trades := [maximize_open_trade 102 1], events := [Opened 1]\<rparr>"

section \<open>Invariants of the two loops\<close>

lemma dict_update_maximize:
  "dict_update (maximize_open_trade e i)
     [(''exit_price'', Float x), (''pnl'', Float g), (''exit_idx'', Index j)]
   = maximize_closed_trade e i x g j"
  by (simp add: dict_update_def maximize_open_trade_def maximize_closed_trade_def)

lemma maximize_closed_trade_facts:
  "is_closed (maximize_closed_trade e i x g j)"
  "trade_pnl (maximize_closed_trade e i x g j) = g"
  "pnl_exact p (maximize_closed_trade e i x g j) = (g = (x - e) * volume p)"
  "map fst (maximize_closed_trade e i x g j) =
     [''entry_price'', ''entry_idx'', ''exit_price'', ''pnl'', ''exit_idx'']"
  by (simp_all add: is_closed_def trade_pnl_def pnl_exact_def maximize_closed_trade_def)

lemma maximize_open_trade_facts:
  "\<not> is_closed (maximize_open_trade e i)"
  by (simp add: is_closed_def maximize_open_trade_def)

lemma ledger_pnl_snoc:
  "ledger_pnl (ts @ [t]) = ledger_pnl ts + (if is_closed t then trade_pnl t else 0)"
  by (simp add: ledger_pnl_def)

lemma position_trace_snoc:
  "position_trace (es @ [e]) = replay (position_trace es) e"
  by (simp add: position_trace_def)

lemma maximize_inv_initial: "maximize_inv p (initial_state r0)"
  by (simp add: maximize_inv_def initial_state_def ledger_pnl_def position_trace_def)

lemma maximize_down_inv:
  assumes "maximize_inv p s" "current_trend s = - 1" "maximize_down p s i r = Inr s'"
  shows "maximize_inv p s'"
proof -
  from assms(1,2) have nopen: "\<not> is_position_open s"
    by (auto simp: maximize_inv_def split: if_splits)
  with assms(1) obtain ts where ts: "list_all (maximize_closed p) ts" "trades s = ts"
    by (auto simp: maximize_inv_def)
  from assms(1) nopen have tot: "total_pnl s = ledger_pnl (trades s)"
    and tr: "position_trace (events s) = Some False"
    by (auto simp: maximize_inv_def)
  show ?thesis
    using assms(2,3) nopen ts tot tr
    by (auto simp: maximize_down_def maximize_inv_def Let_def ledger_pnl_snoc
        position_trace_snoc maximize_open_trade_facts maximize_open_trade_def[symmetric]
        split: if_splits)
qed

lemma maximize_up_inv:
  assumes "maximize_inv p s" "current_trend s \<noteq> - 1" "maximize_up p s i r = Inr s'"
  shows "maximize_inv p s'"
proof -
  from assms(1,2) have isopen: "is_position_open s"
    by (auto simp: maximize_inv_def split: if_splits)
  with assms(1) obtain ts j where ts: "list_all (maximize_closed p) ts"
      "trades s = ts @ [maximize_open_trade (entry_price s) j]"
    by (auto simp: maximize_inv_def)
  from assms(1) isopen have tot: "total_pnl s = ledger_pnl (trades s)"
    and tr: "position_trace (events s) = Some True"
    and ct: "current_trend s = 1"
    by (auto simp: maximize_inv_def)
  have cl: "maximize_closed p (maximize_closed_trade (entry_price s) j x ((x - entry_price s) * volume p) k)" for x k
    unfolding maximize_closed_def by blast
  show ?thesis
    using assms(3) isopen ts tot tr ct cl
    by (auto simp: maximize_up_def maximize_inv_def Let_def ledger_pnl_snoc
        position_trace_snoc maximize_open_trade_facts maximize_closed_trade_facts
        dict_update_maximize
        split: if_splits)
qed

lemma maximize_step_inv:
  assumes "maximize_inv p s" "maximize_step p s i r = Inr s'"
  shows "maximize_inv p s'"
proof (cases "use_volatility_filter p \<and> fgt (atr r) (Fin (volatility_threshold p))")
  case True
  with assms(2) have "s' = s\<lparr>is_trading_paused := True\<rparr>"
    by (simp add: maximize_step_def)
  with assms(1) show ?thesis
    by (auto simp: maximize_inv_def split: if_splits)
next
  case False
  define s0 where "s0 = (if use_volatility_filter p then s\<lparr>is_trading_paused := False\<rparr> else s)"
  have inv0: "maximize_inv p s0"
    using assms(1) by (auto simp: s0_def maximize_inv_def split: if_splits)
  from False assms(2) have st:
    "(if current_trend s0 = - 1 then maximize_down p s0 i r else maximize_up p s0 i r) = Inr s'"
    by (auto simp: maximize_step_def s0_def Let_def split: if_splits)
  show ?thesis
  proof (cases "current_trend s0 = - 1")
    case True
    with st inv0 show ?thesis by (simp add: maximize_down_inv)
  next
    case False
    with st inv0 show ?thesis by (simp add: maximize_up_inv)
  qed
qed

lemma maximize_loop_inv:
  "maximize_inv p s \<Longrightarrow> maximize_loop p i df s = Inr s' \<Longrightarrow> maximize_inv p s'"
  by (induction df arbitrary: s i) (auto split: sum.splits dest: maximize_step_inv)

lemma dict_update_advanced:
  "dict_update (advanced_open_trade d e)
     [(''exit_date'', Timestamp d'), (''exit_price'', Float x), (''pnl'', Float g)]
   = advanced_closed_trade d e g d' x"
  by (simp add: dict_update_def advanced_open_trade_def advanced_closed_trade_def)

lemma advanced_closed_trade_facts:
  "is_closed (advanced_closed_trade d e g d' x)"
  "trade_pnl (advanced_closed_trade d e g d' x) = g"
  "pnl_exact p (advanced_closed_trade d e g d' x) = (g = (x - e) * volume p)"
  "map fst (advanced_closed_trade d e g d' x) =
     [''entry_date'', ''entry_price'', ''pnl'', ''exit_date'', ''exit_price'']"
  by (simp_all add: is_closed_def trade_pnl_def pnl_exact_def advanced_closed_trade_def)

lemma advanced_inv_initial: "advanced_inv p (initial_state r0)"
  by (simp add: advanced_inv_def initial_state_def ledger_pnl_def position_trace_def)

lemma advanced_gate_inv: "advanced_inv p s \<Longrightarrow> advanced_inv p (advanced_gate p s r)"
  by (auto simp: advanced_inv_def advanced_gate_def Let_def split: if_splits)

lemma advanced_down_inv:
  assumes "advanced_inv p s" "current_trend s = - 1"
  shows "advanced_inv p (advanced_down p s i r)"
proof -
  from assms have nopen: "\<not> is_position_open s"
    by (auto simp: advanced_inv_def split: if_splits)
  from assms(1) nopen have tot: "total_pnl s = ledger_pnl (trades s)"
    and tr: "position_trace (events s) = Some False"
    and cl: "list_all (advanced_closed p) (trades s)"
    by (auto simp: advanced_inv_def)
  show ?thesis
    using assms(2) nopen tot tr cl
    by (auto simp: advanced_down_def advanced_inv_def Let_def position_trace_snoc
        advanced_open_trade_def)
qed

lemma advanced_up_inv:
  assumes "advanced_inv p s" "current_trend s = 1"
  shows "advanced_inv p (advanced_up p s i r)"
proof -
  from assms have isopen: "is_position_open s"
    by (auto simp: advanced_inv_def split: if_splits)
  with assms(1) obtain d where d: "trade s = advanced_open_trade d (entry_price s)"
    by (auto simp: advanced_inv_def)
  from assms(1) isopen have tot: "total_pnl s = ledger_pnl (trades s)"
    and tr: "position_trace (events s) = Some True"
    and cl: "list_all (advanced_closed p) (trades s)"
    by (auto simp: advanced_inv_def)
  have c: "advanced_closed p
      (advanced_closed_trade d (entry_price s) ((x - entry_price s) * volume p) d' x)" for x d'
    unfolding advanced_closed_def by blast
  show ?thesis
    using assms(2) isopen d tot tr cl c
    by (auto simp: advanced_up_def advanced_inv_def Let_def ledger_pnl_snoc position_trace_snoc
        advanced_closed_trade_facts dict_update_advanced)
qed

lemma advanced_step_inv:
  assumes "advanced_inv p s"
  shows "advanced_inv p (advanced_step p s i r)"
proof (cases "isnan (sma r)")
  case True
  with assms show ?thesis by (simp add: advanced_step_def)
next
  case False
  have g: "advanced_inv p (advanced_gate p s r)"
    using assms by (rule advanced_gate_inv)
  then have "current_trend (advanced_gate p s r) = - 1 \<or> current_trend (advanced_gate p s r) = 1"
    by (auto simp: advanced_inv_def split: if_splits)
  with False g show ?thesis
    by (auto simp: advanced_step_def Let_def advanced_down_inv advanced_up_inv)
qed

lemma advanced_loop_inv:
  "advanced_inv p s \<Longrightarrow> advanced_inv p (advanced_loop p i df s)"
  by (induction df arbitrary: s i) (auto simp: advanced_step_inv)

lemma maximize_closed_facts:
  "maximize_closed p t \<Longrightarrow> is_closed t \<and> pnl_exact p t
     \<and> map fst t = [''entry_price'', ''entry_idx'', ''exit_price'', ''pnl'', ''exit_idx'']"
  by (auto simp: maximize_closed_def maximize_closed_trade_facts)

lemma advanced_closed_facts:
  "advanced_closed p t \<Longrightarrow> is_closed t \<and> pnl_exact p t
     \<and> map fst t = [''entry_date'', ''entry_price'', ''pnl'', ''exit_date'', ''exit_price'']"
  by (auto simp: advanced_closed_def advanced_closed_trade_facts)

lemma open_trades_closed: "list_all is_closed ts \<Longrightarrow> open_trades ts = 0"
  by (induction ts) (auto simp: open_trades_def)

lemma open_trades_snoc:
  "open_trades (ts @ [t]) = open_trades ts + (if is_closed t then 0 else 1)"
  by (simp add: open_trades_def)

text \<open>What the force-close block of MaximizePnLBot does to a state that satisfies the invariant.\<close>

lemma maximize_force_close_open:
  assumes "maximize_inv p s" "is_position_open s" "df \<noteq> []"
  shows "\<exists>ts i. list_all (maximize_closed p) ts
           \<and> trades s = ts @ [maximize_open_trade (entry_price s) i]
           \<and> maximize_force_close p df s =
               Inr (s\<lparr>total_pnl := total_pnl s + (close (last df) - entry_price s) * volume p,
                      trades := ts @ [maximize_closed_trade (entry_price s) i (close (last df))
                                       ((close (last df) - entry_price s) * volume p)
                                       (length df - 1)],
                      events := events s @ [ForceClosed (length df - 1)]\<rparr>)"
proof -
  from assms(1,2) obtain ts i where ts: "list_all (maximize_closed p) ts"
      "trades s = ts @ [maximize_open_trade (entry_price s) i]"
    by (auto simp: maximize_inv_def)
  then show ?thesis
    using assms(2,3)
    by (auto simp: maximize_force_close_def Let_def dict_update_maximize)
qed

lemma maximize_force_close_closed:
  "\<not> is_position_open s \<Longrightarrow> maximize_force_close p df s = Inr s"
  by (simp add: maximize_force_close_def)

lemma maximize_force_close_ok:
  assumes "maximize_inv p s" "df \<noteq> []" "maximize_force_close p df s = Inr s'"
  shows "maximize_final_ok p s'"
proof (cases "is_position_open s")
  case True
  from maximize_force_close_open[OF assms(1) True assms(2)] assms(3)
  obtain ts i where ts: "list_all (maximize_closed p) ts"
      "trades s = ts @ [maximize_open_trade (entry_price s) i]"
      "s' = s\<lparr>total_pnl := total_pnl s + (close (last df) - entry_price s) * volume p,
                      trades := ts @ [maximize_closed_trade (entry_price s) i (close (last df))
                                       ((close (last df) - entry_price s) * volume p)
                                       (length df - 1)],
                      events := events s @ [ForceClosed (length df - 1)]\<rparr>"
    by auto
  have "maximize_closed p (maximize_closed_trade (entry_price s) i (close (last df))
                                       ((close (last df) - entry_price s) * volume p)
                                       (length df - 1))"
    unfolding maximize_closed_def by blast
  with ts assms(1) True show ?thesis
    by (auto simp: maximize_final_ok_def maximize_inv_def ledger_pnl_snoc position_trace_snoc
        maximize_closed_trade_facts maximize_open_trade_facts)
next
  case False
  with assms show ?thesis
    by (auto simp: maximize_final_ok_def maximize_inv_def maximize_force_close_closed)
qed

lemma maximize_final_inv:
  assumes "maximize_final p df = Inr s'"
  shows "maximize_final_ok p s'"
proof -
  from assms obtain r0 rest where df: "df = r0 # rest"
    by (cases df) (auto simp: maximize_final_def maximize_init_def)
  from assms df obtain s where s: "maximize_loop p 0 df (initial_state r0) = Inr s"
      "maximize_force_close p df s = Inr s'"
    by (auto simp: maximize_final_def maximize_init_def split: sum.splits)
  have "maximize_inv p s"
    using maximize_loop_inv[OF maximize_inv_initial s(1)] .
  then show ?thesis
    using s(2) df by (auto intro: maximize_force_close_ok)
qed

lemma advanced_force_close_open:
  assumes "advanced_inv p s" "is_position_open s"
  shows "\<exists>d. trade s = advanced_open_trade d (entry_price s)
           \<and> advanced_force_close p fr n s =
               s\<lparr>total_pnl := total_pnl s + (close fr - entry_price s) * volume p,
                 trade := advanced_closed_trade d (entry_price s)
                            ((close fr - entry_price s) * volume p) (date fr) (close fr),
                 trades := trades s @ [advanced_closed_trade d (entry_price s)
                            ((close fr - entry_price s) * volume p) (date fr) (close fr)],
                 events := events s @ [ForceClosed (n - 1)]\<rparr>"
proof -
  from assms obtain d where "trade s = advanced_open_trade d (entry_price s)"
    by (auto simp: advanced_inv_def)
  then show ?thesis
    using assms(2) by (auto simp: advanced_force_close_def Let_def dict_update_advanced)
qed

lemma advanced_force_close_ok:
  assumes "advanced_inv p s"
  shows "advanced_final_ok p (advanced_force_close p fr n s)"
proof (cases "is_position_open s")
  case True
  from advanced_force_close_open[OF assms True, of fr n]
  obtain d where d: "advanced_force_close p fr n s =
               s\<lparr>total_pnl := total_pnl s + (close fr - entry_price s) * volume p,
                 trade := advanced_closed_trade d (entry_price s)
                            ((close fr - entry_price s) * volume p) (date fr) (close fr),
                 trades := trades s @ [advanced_closed_trade d (entry_price s)
                            ((close fr - entry_price s) * volume p) (date fr) (close fr)],
                 events := events s @ [ForceClosed (n - 1)]\<rparr>"
    by auto
  have "advanced_closed p (advanced_closed_trade d (entry_price s)
                            ((close fr - entry_price s) * volume p) (date fr) (close fr))"
    unfolding advanced_closed_def by blast
  with d assms True show ?thesis
    by (auto simp: advanced_final_ok_def advanced_inv_def ledger_pnl_snoc position_trace_snoc
        advanced_closed_trade_facts)
next
  case False
  with assms show ?thesis
    by (auto simp: advanced_final_ok_def advanced_inv_def advanced_force_close_def)
qed

lemma advanced_final_inv: "advanced_final_ok p (advanced_final p r0 rest)"
  unfolding advanced_final_def
  by (intro advanced_force_close_ok advanced_loop_inv advanced_inv_initial)

lemma ledger_pnl_nil: "ledger_pnl [] = 0"
  by (simp add: ledger_pnl_def)

lemma exit_reached:
  assumes "0 \<le> dc_threshold p * y_value p" "0 \<le> ext" "0 \<le> mo"
    "lo \<le> ext * (1 - dc_threshold p * y_value p)"
  shows "lo \<le> ext * (1 - dynamic_exit_threshold p mo)"
proof -
  have "exp (- mo) \<le> 1" using assms(3) by simp
  then have "dynamic_exit_threshold p mo \<le> dc_threshold p * y_value p"
    unfolding dynamic_exit_threshold_def using assms(1) by (simp add: mult_left_le)
  then have "ext * (1 - dc_threshold p * y_value p) \<le> ext * (1 - dynamic_exit_threshold p mo)"
    using assms(2) by (intro mult_left_mono) auto
  with assms(4) show ?thesis by linarith
qed

lemma exit_not_reached:
  assumes "0 < dc_threshold p * y_value p" "0 < ext" "ext \<le> lo"
  shows "\<not> lo \<le> ext * (1 - dynamic_exit_threshold p mo)"
proof -
  have "0 < dynamic_exit_threshold p mo"
    unfolding dynamic_exit_threshold_def using assms(1) by simp
  then have "ext * (1 - dynamic_exit_threshold p mo) < ext * 1"
    using assms(2) by (intro mult_strict_left_mono) auto
  with assms(3) show ?thesis by simp
qed

lemmas maximize_defs = maximize_backtest_def maximize_final_def maximize_init_def
  initial_state_def maximize_step_def maximize_down_def maximize_up_def
  maximize_force_close_def maximize_classifier_pass_def relaxed_pass_def strict_pass_def
  use_classifier_def use_volatility_filter_def dict_update_def Let_def

lemmas advanced_defs = advanced_backtest_def advanced_final_def
  initial_state_def advanced_step_def advanced_gate_def advanced_down_def advanced_up_def
  advanced_force_close_def advanced_classifier_pass_def strict_pass_def
  use_classifier_def use_volatility_filter_def dict_update_def Let_def

lemma demo_exit: "105 \<le> 110 * (1 - dynamic_exit_threshold (demo_params m) (4 / 51))"
  by (rule exit_reached) (simp_all add: demo_params_def)

lemma demo_stay: "\<not> 105 \<le> 105 * (1 - dynamic_exit_threshold (demo_params m) (1 / 34))"
  by (rule exit_not_reached) (simp_all add: demo_params_def)

lemma demo_params_simps:
  "mode (demo_params m) = m"
  "dc_threshold (demo_params m) = 1 / 100"
  "volume (demo_params m) = 100"
  "y_value (demo_params m) = 1 / 2"
  "rsi_overbought (demo_params m) = 70"
  "volatility_threshold (demo_params m) = 1 / 2"
  by (simp_all add: demo_params_def)

lemma maximize_step_overshoot:
  "maximize_step p s i r = Inr s' \<Longrightarrow> max_overshoot s \<le> max_overshoot s'"
  by (auto simp: maximize_step_def maximize_down_def maximize_up_def Let_def split: if_splits)

lemma maximize_loop_overshoot:
  "maximize_loop p i df s = Inr s' \<Longrightarrow> max_overshoot s \<le> max_overshoot s'"
proof (induction df arbitrary: s i)
  case Nil
  then show ?case by simp
next
  case (Cons r rs)
  from Cons.prems obtain s1 where s1: "maximize_step p s i r = Inr s1"
      "maximize_loop p (Suc i) rs s1 = Inr s'"
    by (auto split: sum.splits)
  from maximize_step_overshoot[OF s1(1)] Cons.IH[OF s1(2)] show ?case by linarith
qed

lemma advanced_step_overshoot: "max_overshoot s \<le> max_overshoot (advanced_step p s i r)"
  by (auto simp: advanced_step_def advanced_gate_def advanced_down_def advanced_up_def Let_def)

lemma advanced_loop_overshoot: "max_overshoot s \<le> max_overshoot (advanced_loop p i df s)"
proof (induction df arbitrary: s i)
  case Nil
  then show ?case by simp
next
  case (Cons r rs)
  have "max_overshoot s \<le> max_overshoot (advanced_step p s i r)"
    by (rule advanced_step_overshoot)
  also have "\<dots> \<le> max_overshoot (advanced_loop p (Suc i) rs (advanced_step p s i r))"
    by (rule Cons.IH)
  finally show ?case by simp
qed

lemma threshold_antimono:
  assumes "0 \<le> dc_threshold p * y_value p" "m \<le> m'"
  shows "dynamic_exit_threshold p m' \<le> dynamic_exit_threshold p m"
  unfolding dynamic_exit_threshold_def
  using assms by (intro mult_left_mono) auto

lemma maximize_closed_all:
  assumes "list_all (maximize_closed p) ts"
  shows "list_all is_closed ts" and "open_trades ts = 0"
proof -
  show c: "list_all is_closed ts"
    using assms maximize_closed_facts by (auto simp: list_all_iff)
  then show "open_trades ts = 0" by (rule open_trades_closed)
qed

lemma advanced_closed_all:
  assumes "list_all (advanced_closed p) ts"
  shows "list_all is_closed ts" and "open_trades ts = 0"
proof -
  show c: "list_all is_closed ts"
    using assms advanced_closed_facts by (auto simp: list_all_iff)
  then show "open_trades ts = 0" by (rule open_trades_closed)
qed

lemma maximize_inv_ledger:
  assumes "maximize_inv p s"
  shows "position_trace (events s) = Some (is_position_open s)
     \<and> open_trades (trades s) = (if is_position_open s then 1 else 0)
     \<and> list_all is_closed (butlast (trades s))"
proof -
  from assms obtain ts where ts: "list_all (maximize_closed p) ts"
    "if is_position_open s then (\<exists>i. trades s = ts @ [maximize_open_trade (entry_price s) i])
     else trades s = ts"
    by (auto simp: maximize_inv_def)
  from ts(1) have c: "list_all is_closed ts"
    by (rule maximize_closed_all)
  then have "list_all is_closed (butlast ts)"
    by (auto simp: list_all_iff dest: in_set_butlastD)
  with ts(2) c assms show ?thesis
    by (auto simp: maximize_inv_def open_trades_snoc open_trades_closed
        maximize_open_trade_facts split: if_splits)
qed

lemma advanced_inv_ledger:
  assumes "advanced_inv p s"
  shows "position_trace (events s) = Some (is_position_open s) \<and> open_trades (trades s) = 0"
  using assms by (auto simp: advanced_inv_def advanced_closed_all)

lemma demo_maximize_entry:
  "maximize_step (demo_params FULL_AI) (initial_state (bar 0 102 100 101 (1 / 4) 30)) 0
     (bar 0 102 100 101 (1 / 4) 30) = Inr demo_maximize_open"
  by (simp add: maximize_defs bar_def demo_params_simps demo_maximize_open_def
      maximize_open_trade_def)

lemma demo_advanced_entry:
  "advanced_step (demo_params FULL_AI) (initial_state (bar 0 102 100 101 (1 / 4) 30)) 0
     (bar 0 102 100 101 (1 / 4) 30) = demo_advanced_open"
  by (simp add: advanced_defs bar_def demo_params_simps demo_advanced_open_def
      advanced_open_trade_def)

lemma demo_maximize_exit:
  "maximize_step (demo_params FULL_AI) demo_maximize_open (Suc 0) (bar 1 110 105 106 (1 / 4) 30)
   = Inr demo_maximize_done"
  using demo_exit[of FULL_AI]
  by (simp add: maximize_defs bar_def demo_maximize_open_def demo_maximize_done_def
      demo_params_simps maximize_closed_trade_def maximize_open_trade_def)

lemma demo_maximize_stay:
  "maximize_step (demo_params FULL_AI) demo_maximize_open (Suc 0) (bar 1 105 105 105 (1 / 4) 30)
   = Inr demo_maximize_held"
  using demo_stay[of FULL_AI]
  by (simp add: maximize_defs bar_def demo_maximize_open_def demo_maximize_held_def
      demo_params_simps)

lemma demo_advanced_exit:
  "advanced_step (demo_params FULL_AI) demo_advanced_open (Suc 0) (bar 1 110 105 106 (1 / 4) 30)
   = demo_advanced_done"
  using demo_exit[of FULL_AI]
  by (simp add: advanced_defs bar_def demo_advanced_open_def demo_advanced_done_def
      demo_params_simps advanced_closed_trade_def advanced_open_trade_def)

lemma demo_advanced_stay:
  "advanced_step (demo_params FULL_AI) demo_advanced_open (Suc 0) (bar 1 105 105 105 (1 / 4) 30)
   = demo_advanced_held"
  using demo_stay[of FULL_AI]
  by (simp add: advanced_defs bar_def demo_advanced_open_def demo_advanced_held_def
      demo_params_simps)

lemma maximize_demo_signal_loop:
  "maximize_loop (demo_params FULL_AI) 0 demo_signal (initial_state (bar 0 102 100 101 (1 / 4) 30))
   = Inr demo_maximize_done"
  by (simp add: demo_signal_def demo_maximize_entry demo_maximize_exit)

lemma maximize_demo_signal:
  "maximize_final (demo_params FULL_AI) demo_signal = Inr demo_maximize_done"
proof -
  have "maximize_final (demo_params FULL_AI) demo_signal
      = maximize_force_close (demo_params FULL_AI) demo_signal demo_maximize_done"
    by (simp add: maximize_final_def maximize_init_def demo_signal_def demo_maximize_entry
        demo_maximize_exit)
  also have "\<dots> = Inr demo_maximize_done"
    by (simp add: maximize_force_close_def demo_maximize_done_def)
  finally show ?thesis .
qed

lemma maximize_demo_forced_loop:
  "maximize_loop (demo_params FULL_AI) 0 demo_forced (initial_state (bar 0 102 100 101 (1 / 4) 30))
   = Inr demo_maximize_held"
  by (simp add: demo_forced_def demo_maximize_entry demo_maximize_stay)

lemma maximize_demo_forced:
  "maximize_final (demo_params FULL_AI) demo_forced = Inr demo_maximize_forced"
proof -
  have "maximize_final (demo_params FULL_AI) demo_forced
      = maximize_force_close (demo_params FULL_AI) demo_forced demo_maximize_held"
    by (simp add: maximize_final_def maximize_init_def demo_forced_def demo_maximize_entry
        demo_maximize_stay)
  also have "\<dots> = Inr demo_maximize_forced"
    by (simp add: maximize_force_close_def demo_forced_def demo_maximize_open_def
        demo_maximize_held_def demo_maximize_forced_def
        dict_update_maximize demo_params_simps bar_def Let_def)
  finally show ?thesis .
qed

lemma advanced_demo_signal_loop:
  "advanced_loop (demo_params FULL_AI) 0 demo_signal (initial_state (bar 0 102 100 101 (1 / 4) 30))
   = demo_advanced_done"
  by (simp add: demo_signal_def demo_advanced_entry demo_advanced_exit)

lemma advanced_demo_signal:
  "advanced_final (demo_params FULL_AI) (bar 0 102 100 101 (1 / 4) 30)
     [bar 1 110 105 106 (1 / 4) 30] = demo_advanced_done"
proof -
  have "advanced_final (demo_params FULL_AI) (bar 0 102 100 101 (1 / 4) 30)
          [bar 1 110 105 106 (1 / 4) 30]
      = advanced_force_close (demo_params FULL_AI) (bar 1 110 105 106 (1 / 4) 30) (Suc (Suc 0))
          demo_advanced_done"
    by (simp add: advanced_final_def demo_advanced_entry demo_advanced_exit)
  also have "\<dots> = demo_advanced_done"
    by (simp add: advanced_force_close_def demo_advanced_done_def)
  finally show ?thesis .
qed

lemma advanced_demo_forced_loop:
  "advanced_loop (demo_params FULL_AI) 0 demo_forced (initial_state (bar 0 102 100 101 (1 / 4) 30))
   = demo_advanced_held"
  by (simp add: demo_forced_def demo_advanced_entry demo_advanced_stay)

lemma advanced_demo_forced:
  "advanced_final (demo_params FULL_AI) (bar 0 102 100 101 (1 / 4) 30)
     [bar 1 105 105 105 (1 / 4) 30] = demo_advanced_forced"
proof -
  have "advanced_final (demo_params FULL_AI) (bar 0 102 100 101 (1 / 4) 30)
          [bar 1 105 105 105 (1 / 4) 30]
      = advanced_force_close (demo_params FULL_AI) (bar 1 105 105 105 (1 / 4) 30) (Suc (Suc 0))
          demo_advanced_held"
    by (simp add: advanced_final_def demo_advanced_entry demo_advanced_stay)
  also have "\<dots> = demo_advanced_forced"
    by (simp add: advanced_force_close_def demo_advanced_open_def demo_advanced_held_def
        demo_advanced_forced_def dict_update_advanced demo_params_simps bar_def Let_def)
  finally show ?thesis .
qed

lemma maximize_demo_backtest:
  "maximize_backtest (demo_params FULL_AI) demo_signal
     = Inr (300, [maximize_closed_trade 102 0 105 300 1])"
  "maximize_backtest (demo_params FULL_AI) demo_forced
     = Inr (300, [maximize_closed_trade 102 0 105 300 1])"
  by (simp_all add: maximize_backtest_def maximize_demo_signal maximize_demo_forced
      demo_maximize_done_def demo_maximize_forced_def)

lemma advanced_demo_backtest:
  "advanced_backtest (demo_params FULL_AI) demo_signal
     = (300, [advanced_closed_trade 0 102 300 1 105])"
  "advanced_backtest (demo_params FULL_AI) demo_forced
     = (300, [advanced_closed_trade 0 102 300 1 105])"
  by (simp_all add: advanced_backtest_def demo_signal_def demo_forced_def
      advanced_demo_signal advanced_demo_forced demo_advanced_done_def demo_advanced_forced_def)

lemma maximize_step_opens:
  assumes "\<not> is_position_open s" "maximize_step p s i r = Inr s'" "is_position_open s'"
  shows "maximize_classifier_pass p r"
  using assms
  by (auto simp: maximize_step_def maximize_down_def maximize_up_def Let_def split: if_splits)

lemma advanced_step_opens:
  assumes "\<not> is_position_open a" "is_position_open (advanced_step p a i r)"
  shows "advanced_classifier_pass p r"
  using assms
  by (auto simp: advanced_step_def advanced_gate_def advanced_down_def advanced_up_def Let_def
      split: if_splits)

lemma demo_entry_any_adx:
  assumes "10 < x"
  shows "maximize_step (demo_params m) (initial_state (bar 0 102 100 101 (1 / 4) x)) 0
     (bar 0 102 100 101 (1 / 4) x) = Inr demo_maximize_open"
  using assms
  by (cases m) (simp_all add: maximize_defs bar_def demo_params_simps demo_maximize_open_def
      maximize_open_trade_def)

lemma demo_advanced_entry_baseline:
  "advanced_step (demo_params BASELINE) (initial_state (bar 0 102 100 101 (1 / 4) x)) 0
     (bar 0 102 100 101 (1 / 4) x) = demo_advanced_open"
  by (simp add: advanced_defs bar_def demo_params_simps demo_advanced_open_def
      advanced_open_trade_def)

lemma demo_advanced_paused_loop:
  "advanced_loop (demo_params FULL_AI) 0 [demo_quiet, demo_volatile] (initial_state demo_quiet)
   = (initial_state demo_quiet)\<lparr>is_trading_paused := True, last_extreme := 90\<rparr>"
  by (simp add: advanced_defs demo_quiet_def demo_volatile_def bar_def demo_params_simps)

lemma demo_advanced_paused_exit:
  "advanced_step (demo_params FULL_AI) demo_advanced_open (Suc 0) (bar 1 110 105 106 (3 / 4) 30)
   = demo_advanced_done\<lparr>is_trading_paused := True\<rparr>"
  using demo_exit[of FULL_AI]
  by (simp add: advanced_defs bar_def demo_advanced_open_def demo_advanced_done_def
      demo_params_simps advanced_closed_trade_def advanced_open_trade_def)

lemma demo_maximize_paused_reached:
  "maximize_loop (demo_params NO_CLASSIFIER) 0 [bar 0 101 100 (201 / 2) (3 / 4) 30]
     (initial_state (bar 0 101 100 (201 / 2) (3 / 4) 30)) = Inr demo_maximize_paused"
  by (simp add: maximize_step_def use_volatility_filter_def demo_params_simps bar_def
      initial_state_def demo_maximize_paused_def)

lemma demo_maximize_entry_after_pause:
  "maximize_step (demo_params NO_CLASSIFIER) demo_maximize_paused (Suc 0)
     (bar 1 102 100 101 (1 / 4) 30) = Inr demo_maximize_open_late"
  by (simp add: maximize_defs bar_def demo_params_simps demo_maximize_paused_def
      demo_maximize_open_late_def demo_maximize_open_def maximize_open_trade_def)

lemma demo_zero_maximize:
  "maximize_backtest (demo_params FULL_AI) [demo_zero] = Inl ZeroDivision"
  by (simp add: maximize_defs demo_zero_def demo_params_simps)

lemma demo_zero_advanced:
  "advanced_backtest (demo_params FULL_AI) [demo_zero]
   = (- 50, [advanced_closed_trade 0 1 (- 50) 0 (1 / 2)])"
  by (simp add: advanced_defs demo_zero_def demo_params_simps advanced_closed_trade_def)

lemma demo_below_maximize:
  "maximize_backtest (demo_params FULL_AI) [demo_below, demo_zero\<lparr>date := 1\<rparr>]
   = Inl ZeroDivision"
  by (simp add: maximize_defs demo_zero_def demo_below_def demo_params_simps)

lemma demo_below_advanced:
  "advanced_backtest (demo_params FULL_AI) [demo_below, demo_zero\<lparr>date := 1\<rparr>]
   = (0, [advanced_closed_trade 0 0 0 1 0])"
proof -
  have "0 \<le> 1 * (1 - dynamic_exit_threshold (demo_params FULL_AI) (1 / 10000))"
    by (rule exit_reached) (simp_all add: demo_params_simps)
  then show ?thesis
    by (simp add: advanced_defs demo_zero_def demo_below_def demo_params_simps
        advanced_closed_trade_def)
qed

section \<open>The claims\<close>

subsection \<open>C1: the strict confirmation tier\<close>

text \<open>
  Claim C1, as amended. When the entry classifier is enabled, a step opens a position only
  if high > SMA, rsi < rsi_overbought, macd > macdsignal, stoch_k > stoch_d and the ADX
  strictly exceeds the floor of the variant: 25 in \<^verbatim>\<open>AdvancedDCBot\<close>, 10 in
  \<^verbatim>\<open>MaximizePnLBot\<close>.
\<close>

theorem strict_tier_adx_floor:
  "(use_classifier p \<and> \<not> is_position_open s \<and> maximize_step p s i r = Inr s'
      \<and> is_position_open s' \<longrightarrow>
        fgt (Fin (high r)) (sma r) \<and> flt (rsi r) (Fin (rsi_overbought p))
        \<and> fgt (macd r) (macdsignal r) \<and> fgt (stoch_k r) (stoch_d r)
        \<and> fgt (adx r) (Fin 10))
   \<and> (use_classifier p \<and> \<not> is_position_open a \<and> is_position_open (advanced_step p a i r)
      \<longrightarrow>
        fgt (Fin (high r)) (sma r) \<and> flt (rsi r) (Fin (rsi_overbought p))
        \<and> fgt (macd r) (macdsignal r) \<and> fgt (stoch_k r) (stoch_d r)
        \<and> fgt (adx r) (Fin 25))"
proof (rule conjI; rule impI)
  assume h: "use_classifier p \<and> \<not> is_position_open s \<and> maximize_step p s i r = Inr s'
      \<and> is_position_open s'"
  then have "maximize_classifier_pass p r"
    by (blast intro: maximize_step_opens)
  with h show "fgt (Fin (high r)) (sma r) \<and> flt (rsi r) (Fin (rsi_overbought p))
        \<and> fgt (macd r) (macdsignal r) \<and> fgt (stoch_k r) (stoch_d r)
        \<and> fgt (adx r) (Fin 10)"
    by (simp add: maximize_classifier_pass_def strict_pass_def)
next
  assume h: "use_classifier p \<and> \<not> is_position_open a
      \<and> is_position_open (advanced_step p a i r)"
  then have "advanced_classifier_pass p r"
    by (blast intro: advanced_step_opens)
  with h show "fgt (Fin (high r)) (sma r) \<and> flt (rsi r) (Fin (rsi_overbought p))
        \<and> fgt (macd r) (macdsignal r) \<and> fgt (stoch_k r) (stoch_d r)
        \<and> fgt (adx r) (Fin 25)"
    by (simp add: advanced_classifier_pass_def strict_pass_def)
qed

theorem strict_tier_adx_floor_witness:
  "use_classifier (demo_params FULL_AI)
   \<and> \<not> is_position_open (initial_state (bar 0 102 100 101 (1 / 4) 30))
   \<and> maximize_step (demo_params FULL_AI) (initial_state (bar 0 102 100 101 (1 / 4) 30)) 0
        (bar 0 102 100 101 (1 / 4) 30) = Inr demo_maximize_open
   \<and> is_position_open demo_maximize_open
   \<and> is_position_open (advanced_step (demo_params FULL_AI)
        (initial_state (bar 0 102 100 101 (1 / 4) 30)) 0 (bar 0 102 100 101 (1 / 4) 30))
   \<and> fgt (adx (bar 0 102 100 101 (1 / 4) 30)) (Fin 10)
   \<and> fgt (adx (bar 0 102 100 101 (1 / 4) 30)) (Fin 25)"
proof -
  have h: "use_classifier (demo_params FULL_AI)"
    "\<not> is_position_open (initial_state (bar 0 102 100 101 (1 / 4) 30))"
    "is_position_open demo_maximize_open"
    "is_position_open (advanced_step (demo_params FULL_AI)
        (initial_state (bar 0 102 100 101 (1 / 4) 30)) 0 (bar 0 102 100 101 (1 / 4) 30))"
    by (simp_all add: use_classifier_def demo_params_simps
        demo_maximize_open_def demo_advanced_entry demo_advanced_open_def)
      (simp add: initial_state_def)
  from strict_tier_adx_floor[where p = "demo_params FULL_AI"
      and s = "initial_state (bar 0 102 100 101 (1 / 4) 30)" and i = 0
      and r = "bar 0 102 100 101 (1 / 4) 30" and s' = demo_maximize_open
      and a = "initial_state (bar 0 102 100 101 (1 / 4) 30)"]
    h demo_maximize_entry
  show ?thesis by blast
qed

theorem strict_tier_adx_floor_counterexample:
  "use_classifier (demo_params FULL_AI)
   \<and> \<not> is_position_open (initial_state (bar 0 102 100 101 (1 / 4) 20))
   \<and> maximize_step (demo_params FULL_AI) (initial_state (bar 0 102 100 101 (1 / 4) 20)) 0
        (bar 0 102 100 101 (1 / 4) 20) = Inr demo_maximize_open
   \<and> is_position_open demo_maximize_open
   \<and> \<not> fgt (adx (bar 0 102 100 101 (1 / 4) 20)) (Fin 25)"
  using demo_entry_any_adx[of 20 FULL_AI]
  by (simp add: use_classifier_def demo_params_simps initial_state_def demo_maximize_open_def
      bar_def)

subsection \<open>C2: the volatility gate\<close>

text \<open>
  Claim C2, as amended. When the volatility filter is enabled and a bar's ATR exceeds
  \<open>volatility_threshold\<close>: \<^verbatim>\<open>MaximizePnLBot\<close> sets the paused flag and skips the trend
  logic of the bar entirely (the state is otherwise unchanged); \<^verbatim>\<open>AdvancedDCBot\<close>, on a
  bar whose SMA is defined, sets the paused flag and only suppresses entries: in the Down
  state the extremum still drops to the minimum of its value and the bar's low, and in the
  Up state the extremum update and the exit logic run as on any bar. When the ATR does not
  exceed the threshold, both clear the paused flag.
\<close>

theorem volatility_gate:
  "(use_volatility_filter p \<and> fgt (atr r) (Fin (volatility_threshold p)) \<longrightarrow>
       maximize_step p s i r = Inr (s\<lparr>is_trading_paused := True\<rparr>))
   \<and> (use_volatility_filter p \<and> \<not> fgt (atr r) (Fin (volatility_threshold p))
       \<and> maximize_step p s i r = Inr s' \<longrightarrow> \<not> is_trading_paused s')
   \<and> (use_volatility_filter p \<and> \<not> isnan (sma r)
       \<and> fgt (atr r) (Fin (volatility_threshold p)) \<longrightarrow>
         is_trading_paused (advanced_step p a i r)
         \<and> (current_trend a = - 1 \<longrightarrow>
              advanced_step p a i r
                = a\<lparr>is_trading_paused := True,
                    last_extreme := min (last_extreme a) (low r)\<rparr>)
         \<and> (current_trend a = 1 \<longrightarrow>
              advanced_step p a i r = advanced_up p (a\<lparr>is_trading_paused := True\<rparr>) i r))
   \<and> (use_volatility_filter p \<and> \<not> isnan (sma r)
       \<and> \<not> fgt (atr r) (Fin (volatility_threshold p)) \<longrightarrow>
         \<not> is_trading_paused (advanced_step p a i r))"
proof (intro conjI impI)
  assume "use_volatility_filter p \<and> fgt (atr r) (Fin (volatility_threshold p))"
  then show "maximize_step p s i r = Inr (s\<lparr>is_trading_paused := True\<rparr>)"
    by (simp add: maximize_step_def)
next
  assume "use_volatility_filter p \<and> \<not> fgt (atr r) (Fin (volatility_threshold p))
       \<and> maximize_step p s i r = Inr s'"
  then show "\<not> is_trading_paused s'"
    by (auto simp: maximize_step_def maximize_down_def maximize_up_def Let_def
        split: if_splits)
next
  assume h: "use_volatility_filter p \<and> \<not> isnan (sma r)
       \<and> fgt (atr r) (Fin (volatility_threshold p))"
  then have g: "advanced_gate p a r = a\<lparr>is_trading_paused := True\<rparr>"
    by (cases "is_trading_paused a") (simp_all add: advanced_gate_def)
  show "is_trading_paused (advanced_step p a i r)"
    using h g by (simp add: advanced_step_def advanced_down_def advanced_up_def Let_def)
  show "advanced_step p a i r
                = a\<lparr>is_trading_paused := True,
                    last_extreme := min (last_extreme a) (low r)\<rparr>"
    if "current_trend a = - 1"
    using h g that by (simp add: advanced_step_def advanced_down_def Let_def min_def)
  show "advanced_step p a i r = advanced_up p (a\<lparr>is_trading_paused := True\<rparr>) i r"
    if "current_trend a = 1"
    using h g that by (simp add: advanced_step_def)
next
  assume h: "use_volatility_filter p \<and> \<not> isnan (sma r)
       \<and> \<not> fgt (atr r) (Fin (volatility_threshold p))"
  then have g: "\<not> is_trading_paused (advanced_gate p a r)"
    by (simp add: advanced_gate_def)
  then show "\<not> is_trading_paused (advanced_step p a i r)"
    using h by (simp add: advanced_step_def advanced_down_def advanced_up_def Let_def)
qed

theorem volatility_gate_witness:
  "use_volatility_filter (demo_params FULL_AI)
   \<and> fgt (atr (bar 1 110 105 106 (3 / 4) 30)) (Fin (volatility_threshold (demo_params FULL_AI)))
   \<and> \<not> isnan (sma (bar 1 110 105 106 (3 / 4) 30))
   \<and> maximize_step (demo_params FULL_AI) demo_maximize_open (Suc 0)
        (bar 1 110 105 106 (3 / 4) 30)
       = Inr (demo_maximize_open\<lparr>is_trading_paused := True\<rparr>)
   \<and> current_trend demo_advanced_open = 1
   \<and> is_trading_paused (advanced_step (demo_params FULL_AI) demo_advanced_open (Suc 0)
        (bar 1 110 105 106 (3 / 4) 30))
   \<and> \<not> fgt (atr (bar 1 110 105 106 (1 / 4) 30))
        (Fin (volatility_threshold (demo_params FULL_AI)))
   \<and> maximize_step (demo_params FULL_AI) demo_maximize_open (Suc 0)
        (bar 1 110 105 106 (1 / 4) 30) = Inr demo_maximize_done
   \<and> \<not> is_trading_paused demo_maximize_done"
proof -
  have h: "use_volatility_filter (demo_params FULL_AI)"
    "fgt (atr (bar 1 110 105 106 (3 / 4) 30)) (Fin (volatility_threshold (demo_params FULL_AI)))"
    "\<not> isnan (sma (bar 1 110 105 106 (3 / 4) 30))"
    "current_trend demo_advanced_open = 1"
    "\<not> fgt (atr (bar 1 110 105 106 (1 / 4) 30))
        (Fin (volatility_threshold (demo_params FULL_AI)))"
    by (simp_all add: use_volatility_filter_def demo_params_simps bar_def
        demo_advanced_open_def)
  from volatility_gate[where p = "demo_params FULL_AI" and r = "bar 1 110 105 106 (3 / 4) 30"
      and s = demo_maximize_open and i = "Suc 0" and a = demo_advanced_open] h
  have hi: "maximize_step (demo_params FULL_AI) demo_maximize_open (Suc 0)
        (bar 1 110 105 106 (3 / 4) 30)
       = Inr (demo_maximize_open\<lparr>is_trading_paused := True\<rparr>)"
    "is_trading_paused (advanced_step (demo_params FULL_AI) demo_advanced_open (Suc 0)
        (bar 1 110 105 106 (3 / 4) 30))"
    by blast+
  from volatility_gate[where p = "demo_params FULL_AI" and r = "bar 1 110 105 106 (1 / 4) 30"
      and s = demo_maximize_open and i = "Suc 0" and s' = demo_maximize_done] h
    demo_maximize_exit
  have lo: "\<not> is_trading_paused demo_maximize_done"
    by blast
  from h hi lo demo_maximize_exit show ?thesis
    by (intro conjI)
qed

theorem volatility_gate_counterexample:
  "use_volatility_filter (demo_params FULL_AI)
   \<and> fgt (atr demo_volatile) (Fin (volatility_threshold (demo_params FULL_AI)))
   \<and> last_extreme (initial_state demo_quiet) = 100
   \<and> last_extreme (advanced_loop (demo_params FULL_AI) 0 [demo_quiet] (initial_state demo_quiet))
       = 100
   \<and> last_extreme (advanced_loop (demo_params FULL_AI) 0 [demo_quiet, demo_volatile]
        (initial_state demo_quiet)) = 90
   \<and> fgt (atr (bar 1 110 105 106 (3 / 4) 30)) (Fin (volatility_threshold (demo_params FULL_AI)))
   \<and> is_position_open demo_advanced_open
   \<and> advanced_step (demo_params FULL_AI) demo_advanced_open (Suc 0)
        (bar 1 110 105 106 (3 / 4) 30) = demo_advanced_done\<lparr>is_trading_paused := True\<rparr>
   \<and> \<not> is_position_open (demo_advanced_done\<lparr>is_trading_paused := True\<rparr>)"
proof -
  have g: "use_volatility_filter (demo_params FULL_AI)"
    "fgt (atr demo_volatile) (Fin (volatility_threshold (demo_params FULL_AI)))"
    "last_extreme (initial_state demo_quiet) = 100"
    "fgt (atr (bar 1 110 105 106 (3 / 4) 30)) (Fin (volatility_threshold (demo_params FULL_AI)))"
    "is_position_open demo_advanced_open"
    "\<not> is_position_open (demo_advanced_done\<lparr>is_trading_paused := True\<rparr>)"
    by (simp_all add: use_volatility_filter_def demo_params_simps demo_volatile_def
        demo_quiet_def bar_def initial_state_def demo_advanced_open_def demo_advanced_done_def)
  have q: "last_extreme (advanced_loop (demo_params FULL_AI) 0 [demo_quiet]
      (initial_state demo_quiet)) = 100"
    by (simp add: advanced_defs demo_quiet_def bar_def demo_params_simps)
  have v: "last_extreme (advanced_loop (demo_params FULL_AI) 0 [demo_quiet, demo_volatile]
        (initial_state demo_quiet)) = 90"
    by (simp only: demo_advanced_paused_loop) simp
  from g q v demo_advanced_paused_exit show ?thesis
    by (intro conjI)
qed

subsection \<open>C3: the exit of the Up state\<close>

text \<open>
  Claim C3. In the Up state with a position open, a bar that reaches the trend logic (one
  that the volatility gate of \<^verbatim>\<open>MaximizePnLBot\<close> does not skip, one whose SMA is defined in
  \<^verbatim>\<open>AdvancedDCBot\<close>) first raises \<open>max_overshoot\<close> to the maximum of its value and the
  position's overshoot; the dynamic exit threshold is
  \<open>dc_threshold * y_value * exp (- max_overshoot)\<close>; and if the bar's low is at most
  \<open>extremum * (1 - threshold)\<close>, with the extremum already raised to the bar's high, the
  position closes at the bar's low with \<open>pnl = (exit_price - entry_price) * volume\<close>, the
  trade record receives exit price and pnl, the trend becomes Down, the extremum is reset
  to the bar's low and the open flag is cleared. Otherwise the position stays open.
\<close>

theorem up_state_exit:
  "(current_trend s \<noteq> - 1 \<and> is_position_open s
      \<and> \<not> (use_volatility_filter p \<and> fgt (atr r) (Fin (volatility_threshold p)))
      \<and> maximize_step p s i r = Inr s' \<longrightarrow>
        max_overshoot s' = max (max_overshoot s) ((high r - entry_price s) / entry_price s)
        \<and> dynamic_exit_threshold p (max_overshoot s')
            = dc_threshold p * y_value p * exp (- max_overshoot s')
        \<and> (if low r \<le> max (last_extreme s) (high r)
                         * (1 - dynamic_exit_threshold p (max_overshoot s'))
            then total_pnl s' = total_pnl s + (low r - entry_price s) * volume p
               \<and> trades s' = butlast (trades s) @
                    [dict_update (last (trades s))
                       [(''exit_price'', Float (low r)),
                        (''pnl'', Float ((low r - entry_price s) * volume p)),
                        (''exit_idx'', Index i)]]
               \<and> current_trend s' = - 1 \<and> last_extreme s' = low r
               \<and> \<not> is_position_open s'
            else total_pnl s' = total_pnl s \<and> trades s' = trades s
               \<and> current_trend s' = current_trend s
               \<and> last_extreme s' = max (last_extreme s) (high r)
               \<and> is_position_open s'))
   \<and> (current_trend a = 1 \<and> is_position_open a \<and> \<not> isnan (sma r)
      \<and> advanced_step p a i r = a' \<longrightarrow>
        max_overshoot a' = max (max_overshoot a)
           (if entry_price a \<noteq> 0 then (high r - entry_price a) / entry_price a else 0)
        \<and> dynamic_exit_threshold p (max_overshoot a')
            = dc_threshold p * y_value p * exp (- max_overshoot a')
        \<and> (if low r \<le> max (last_extreme a) (high r)
                         * (1 - dynamic_exit_threshold p (max_overshoot a'))
            then total_pnl a' = total_pnl a + (low r - entry_price a) * volume p
               \<and> trades a' = trades a @
                    [dict_update (trade a)
                       [(''exit_date'', Timestamp (date r)),
                        (''exit_price'', Float (low r)),
                        (''pnl'', Float ((low r - entry_price a) * volume p))]]
               \<and> current_trend a' = - 1 \<and> last_extreme a' = low r
               \<and> \<not> is_position_open a'
            else total_pnl a' = total_pnl a \<and> trades a' = trades a
               \<and> current_trend a' = current_trend a
               \<and> last_extreme a' = max (last_extreme a) (high r)
               \<and> is_position_open a'))"
proof (intro conjI impI)
  assume h: "current_trend s \<noteq> - 1 \<and> is_position_open s
      \<and> \<not> (use_volatility_filter p \<and> fgt (atr r) (Fin (volatility_threshold p)))
      \<and> maximize_step p s i r = Inr s'"
  define s0 where "s0 = (if use_volatility_filter p then s\<lparr>is_trading_paused := False\<rparr> else s)"
  from h have up: "maximize_up p s0 i r = Inr s'"
    by (auto simp: maximize_step_def s0_def Let_def split: if_splits)
  have s0: "current_trend s0 = current_trend s" "is_position_open s0" "entry_price s0 = entry_price s"
    "last_extreme s0 = last_extreme s" "max_overshoot s0 = max_overshoot s"
    "trades s0 = trades s" "total_pnl s0 = total_pnl s"
    using h by (simp_all add: s0_def)
  show "max_overshoot s' = max (max_overshoot s) ((high r - entry_price s) / entry_price s)"
    using up s0 by (auto simp: maximize_up_def Let_def split: if_splits)
  show "dynamic_exit_threshold p (max_overshoot s')
            = dc_threshold p * y_value p * exp (- max_overshoot s')"
    by (simp add: dynamic_exit_threshold_def)
  show "if low r \<le> max (last_extreme s) (high r)
                         * (1 - dynamic_exit_threshold p (max_overshoot s'))
            then total_pnl s' = total_pnl s + (low r - entry_price s) * volume p
               \<and> trades s' = butlast (trades s) @
                    [dict_update (last (trades s))
                       [(''exit_price'', Float (low r)),
                        (''pnl'', Float ((low r - entry_price s) * volume p)),
                        (''exit_idx'', Index i)]]
               \<and> current_trend s' = - 1 \<and> last_extreme s' = low r
               \<and> \<not> is_position_open s'
            else total_pnl s' = total_pnl s \<and> trades s' = trades s
               \<and> current_trend s' = current_trend s
               \<and> last_extreme s' = max (last_extreme s) (high r)
               \<and> is_position_open s'"
    using up s0 by (auto simp: maximize_up_def Let_def max_def split: if_splits)
next
  assume h: "current_trend a = 1 \<and> is_position_open a \<and> \<not> isnan (sma r)
      \<and> advanced_step p a i r = a'"
  define s0 where "s0 = advanced_gate p a r"
  from h have up: "a' = advanced_up p s0 i r"
    by (auto simp: advanced_step_def s0_def advanced_gate_def Let_def)
  have s0: "current_trend s0 = current_trend a" "is_position_open s0" "entry_price s0 = entry_price a"
    "last_extreme s0 = last_extreme a" "max_overshoot s0 = max_overshoot a"
    "trades s0 = trades a" "total_pnl s0 = total_pnl a" "trade s0 = trade a"
    using h by (simp_all add: s0_def advanced_gate_def Let_def)
  show "max_overshoot a' = max (max_overshoot a)
           (if entry_price a \<noteq> 0 then (high r - entry_price a) / entry_price a else 0)"
    using up s0 by (auto simp: advanced_up_def Let_def)
  show "dynamic_exit_threshold p (max_overshoot a')
            = dc_threshold p * y_value p * exp (- max_overshoot a')"
    by (simp add: dynamic_exit_threshold_def)
  show "if low r \<le> max (last_extreme a) (high r)
                         * (1 - dynamic_exit_threshold p (max_overshoot a'))
            then total_pnl a' = total_pnl a + (low r - entry_price a) * volume p
               \<and> trades a' = trades a @
                    [dict_update (trade a)
                       [(''exit_date'', Timestamp (date r)),
                        (''exit_price'', Float (low r)),
                        (''pnl'', Float ((low r - entry_price a) * volume p))]]
               \<and> current_trend a' = - 1 \<and> last_extreme a' = low r
               \<and> \<not> is_position_open a'
            else total_pnl a' = total_pnl a \<and> trades a' = trades a
               \<and> current_trend a' = current_trend a
               \<and> last_extreme a' = max (last_extreme a) (high r)
               \<and> is_position_open a'"
    using up s0 by (auto simp: advanced_up_def Let_def max_def)
qed

theorem up_state_exit_witness:
  "current_trend demo_maximize_open \<noteq> - 1 \<and> is_position_open demo_maximize_open
   \<and> \<not> (use_volatility_filter (demo_params FULL_AI)
         \<and> fgt (atr (bar 1 110 105 106 (1 / 4) 30)) (Fin (volatility_threshold (demo_params FULL_AI))))
   \<and> maximize_step (demo_params FULL_AI) demo_maximize_open (Suc 0) (bar 1 110 105 106 (1 / 4) 30)
       = Inr demo_maximize_done
   \<and> max_overshoot demo_maximize_done = 4 / 51
   \<and> total_pnl demo_maximize_done = 300
   \<and> \<not> is_position_open demo_maximize_done
   \<and> current_trend demo_advanced_open = 1 \<and> is_position_open demo_advanced_open
   \<and> \<not> isnan (sma (bar 1 110 105 106 (1 / 4) 30))
   \<and> advanced_step (demo_params FULL_AI) demo_advanced_open (Suc 0) (bar 1 110 105 106 (1 / 4) 30)
       = demo_advanced_done
   \<and> max_overshoot demo_advanced_done = 4 / 51
   \<and> total_pnl demo_advanced_done = 300
   \<and> \<not> is_position_open demo_advanced_done"
proof -
  have a: "current_trend demo_maximize_open \<noteq> - 1" "is_position_open demo_maximize_open"
    "\<not> (use_volatility_filter (demo_params FULL_AI)
         \<and> fgt (atr (bar 1 110 105 106 (1 / 4) 30))
              (Fin (volatility_threshold (demo_params FULL_AI))))"
    by (simp_all add: demo_maximize_open_def bar_def demo_params_simps)
  have b: "current_trend demo_advanced_open = 1" "is_position_open demo_advanced_open"
    "\<not> isnan (sma (bar 1 110 105 106 (1 / 4) 30))"
    by (simp_all add: demo_advanced_open_def bar_def)
  have e: "low (bar 1 110 105 106 (1 / 4) 30)
      \<le> max (last_extreme demo_maximize_open) (high (bar 1 110 105 106 (1 / 4) 30))
          * (1 - dynamic_exit_threshold (demo_params FULL_AI) (max_overshoot demo_maximize_done))"
    using demo_exit[of FULL_AI]
    by (simp add: bar_def demo_maximize_open_def demo_maximize_done_def)
  have e': "low (bar 1 110 105 106 (1 / 4) 30)
      \<le> max (last_extreme demo_advanced_open) (high (bar 1 110 105 106 (1 / 4) 30))
          * (1 - dynamic_exit_threshold (demo_params FULL_AI) (max_overshoot demo_advanced_done))"
    using demo_exit[of FULL_AI]
    by (simp add: bar_def demo_advanced_open_def demo_advanced_done_def)
  have v: "max_overshoot demo_maximize_done = 4 / 51" "total_pnl demo_maximize_done = 300"
    "max_overshoot demo_advanced_done = 4 / 51" "total_pnl demo_advanced_done = 300"
    by (simp_all add: demo_maximize_done_def demo_advanced_done_def)
  from up_state_exit[where s = demo_maximize_open and p = "demo_params FULL_AI"
      and r = "bar 1 110 105 106 (1 / 4) 30" and i = "Suc 0" and s' = demo_maximize_done
      and a = demo_advanced_open and a' = demo_advanced_done]
    a b e e' demo_maximize_exit demo_advanced_exit
  have "\<not> is_position_open demo_maximize_done \<and> \<not> is_position_open demo_advanced_done"
    by (simp only: if_True simp_thms)
  with a b v demo_maximize_exit demo_advanced_exit show ?thesis
    by (simp only: simp_thms)
qed

subsection \<open>C4: the relaxed confirmation tier\<close>

text \<open>
  Claim C4, as amended. When the entry classifier is disabled: in \<^verbatim>\<open>MaximizePnLBot\<close> a
  Down-state reversal candidate opens a position if and only if the relaxed tier holds
  (SMA undefined or high > SMA, rsi < rsi_overbought, adx > 10), and exactly one tier decides
  per configuration, the strict one when the classifier is enabled and the relaxed one when
  it is not; in \<^verbatim>\<open>AdvancedDCBot\<close> the strict tier decides when the classifier is enabled
  and no tier applies when it is disabled: every reversal candidate that is not paused opens
  a position.
\<close>

theorem relaxed_tier:
  "(\<not> use_classifier p \<and> current_trend s = - 1 \<and> \<not> is_position_open s
      \<and> (use_volatility_filter p \<or> \<not> is_trading_paused s)
      \<and> \<not> (use_volatility_filter p \<and> fgt (atr r) (Fin (volatility_threshold p)))
      \<and> high r \<ge> min (last_extreme s) (low r) * (1 + dc_threshold p)
      \<and> maximize_step p s i r = Inr s' \<longrightarrow>
        (is_position_open s' \<longleftrightarrow>
           (isnan (sma r) \<or> fgt (Fin (high r)) (sma r))
           \<and> flt (rsi r) (Fin (rsi_overbought p)) \<and> fgt (adx r) (Fin 10)))
   \<and> maximize_classifier_pass p r
        = (if use_classifier p then strict_pass 10 p r else relaxed_pass p r)
   \<and> (\<not> use_classifier p \<and> current_trend a = - 1 \<and> \<not> isnan (sma r)
      \<and> \<not> is_trading_paused (advanced_gate p a r)
      \<and> high r \<ge> min (last_extreme a) (low r) * (1 + dc_threshold p) \<longrightarrow>
        is_position_open (advanced_step p a i r))
   \<and> advanced_classifier_pass p r = (if use_classifier p then strict_pass 25 p r else True)"
proof (intro conjI impI)
  assume h: "\<not> use_classifier p \<and> current_trend s = - 1 \<and> \<not> is_position_open s
      \<and> (use_volatility_filter p \<or> \<not> is_trading_paused s)
      \<and> \<not> (use_volatility_filter p \<and> fgt (atr r) (Fin (volatility_threshold p)))
      \<and> high r \<ge> min (last_extreme s) (low r) * (1 + dc_threshold p)
      \<and> maximize_step p s i r = Inr s'"
  define s0 where "s0 = (if use_volatility_filter p then s\<lparr>is_trading_paused := False\<rparr> else s)"
  from h have d: "maximize_down p s0 i r = Inr s'"
    by (auto simp: maximize_step_def s0_def Let_def split: if_splits)
  have s0: "\<not> is_position_open s0" "\<not> is_trading_paused s0" "last_extreme s0 = last_extreme s"
    using h by (auto simp: s0_def)
  have c: "maximize_classifier_pass p r
      = ((isnan (sma r) \<or> fgt (Fin (high r)) (sma r))
           \<and> flt (rsi r) (Fin (rsi_overbought p)) \<and> fgt (adx r) (Fin 10))"
    using h by (auto simp: maximize_classifier_pass_def relaxed_pass_def)
  from h have cand: "high r \<ge> min (last_extreme s) (low r) * (1 + dc_threshold p)"
    by simp
  show "is_position_open s' \<longleftrightarrow>
           (isnan (sma r) \<or> fgt (Fin (high r)) (sma r))
           \<and> flt (rsi r) (Fin (rsi_overbought p)) \<and> fgt (adx r) (Fin 10)"
    using d s0 cand unfolding c[symmetric]
    by (auto simp: maximize_down_def Let_def min_def split: if_splits)
next
  show "maximize_classifier_pass p r
        = (if use_classifier p then strict_pass 10 p r else relaxed_pass p r)"
    by (simp add: maximize_classifier_pass_def)
next
  assume h: "\<not> use_classifier p \<and> current_trend a = - 1 \<and> \<not> isnan (sma r)
      \<and> \<not> is_trading_paused (advanced_gate p a r)
      \<and> high r \<ge> min (last_extreme a) (low r) * (1 + dc_threshold p)"
  define a0 where "a0 = advanced_gate p a r"
  have a0: "current_trend a0 = - 1" "last_extreme a0 = last_extreme a" "\<not> is_trading_paused a0"
    using h by (simp_all add: a0_def advanced_gate_def Let_def)
  from h have cand: "high r \<ge> min (last_extreme a) (low r) * (1 + dc_threshold p)"
    by simp
  have "is_position_open (advanced_down p a0 i r)"
    using a0 cand h
    by (auto simp: advanced_down_def advanced_classifier_pass_def Let_def min_def)
  with h a0 show "is_position_open (advanced_step p a i r)"
    by (simp add: advanced_step_def a0_def Let_def)
next
  show "advanced_classifier_pass p r = (if use_classifier p then strict_pass 25 p r else True)"
    by (simp add: advanced_classifier_pass_def)
qed

theorem relaxed_tier_witness:
  "\<not> use_classifier (demo_params NO_CLASSIFIER)
   \<and> use_volatility_filter (demo_params NO_CLASSIFIER)
   \<and> maximize_loop (demo_params NO_CLASSIFIER) 0 [bar 0 101 100 (201 / 2) (3 / 4) 30]
        (initial_state (bar 0 101 100 (201 / 2) (3 / 4) 30)) = Inr demo_maximize_paused
   \<and> is_trading_paused demo_maximize_paused
   \<and> current_trend demo_maximize_paused = - 1
   \<and> high (bar 1 102 100 101 (1 / 4) 30)
        \<ge> min (last_extreme demo_maximize_paused) (low (bar 1 102 100 101 (1 / 4) 30))
            * (1 + dc_threshold (demo_params NO_CLASSIFIER))
   \<and> maximize_step (demo_params NO_CLASSIFIER) demo_maximize_paused (Suc 0)
        (bar 1 102 100 101 (1 / 4) 30) = Inr demo_maximize_open_late
   \<and> is_position_open demo_maximize_open_late
   \<and> fgt (Fin (high (bar 1 102 100 101 (1 / 4) 30))) (sma (bar 1 102 100 101 (1 / 4) 30))
   \<and> flt (rsi (bar 1 102 100 101 (1 / 4) 30)) (Fin (rsi_overbought (demo_params NO_CLASSIFIER)))
   \<and> fgt (adx (bar 1 102 100 101 (1 / 4) 30)) (Fin 10)
   \<and> \<not> use_classifier (demo_params BASELINE)
   \<and> current_trend (initial_state (bar 0 102 100 101 (1 / 4) 30)) = - 1
   \<and> maximize_step (demo_params BASELINE) (initial_state (bar 0 102 100 101 (1 / 4) 30)) 0
        (bar 0 102 100 101 (1 / 4) 30) = Inr demo_maximize_open
   \<and> is_position_open demo_maximize_open
   \<and> is_position_open (advanced_step (demo_params BASELINE)
        (initial_state (bar 0 102 100 101 (1 / 4) 30)) 0 (bar 0 102 100 101 (1 / 4) 30))"
proof -
  have n: "\<not> use_classifier (demo_params NO_CLASSIFIER)"
    "use_volatility_filter (demo_params NO_CLASSIFIER)"
    "is_trading_paused demo_maximize_paused"
    "current_trend demo_maximize_paused = - 1"
    "\<not> is_position_open demo_maximize_paused"
    "\<not> (use_volatility_filter (demo_params NO_CLASSIFIER)
        \<and> fgt (atr (bar 1 102 100 101 (1 / 4) 30))
             (Fin (volatility_threshold (demo_params NO_CLASSIFIER))))"
    "high (bar 1 102 100 101 (1 / 4) 30)
        \<ge> min (last_extreme demo_maximize_paused) (low (bar 1 102 100 101 (1 / 4) 30))
            * (1 + dc_threshold (demo_params NO_CLASSIFIER))"
    by (simp_all add: use_classifier_def use_volatility_filter_def demo_params_simps
        demo_maximize_paused_def initial_state_def bar_def)
  from relaxed_tier[where p = "demo_params NO_CLASSIFIER" and s = demo_maximize_paused
      and i = "Suc 0" and r = "bar 1 102 100 101 (1 / 4) 30" and s' = demo_maximize_open_late]
    n demo_maximize_entry_after_pause
  have c: "is_position_open demo_maximize_open_late \<longleftrightarrow>
      (isnan (sma (bar 1 102 100 101 (1 / 4) 30))
         \<or> fgt (Fin (high (bar 1 102 100 101 (1 / 4) 30))) (sma (bar 1 102 100 101 (1 / 4) 30)))
      \<and> flt (rsi (bar 1 102 100 101 (1 / 4) 30))
           (Fin (rsi_overbought (demo_params NO_CLASSIFIER)))
      \<and> fgt (adx (bar 1 102 100 101 (1 / 4) 30)) (Fin 10)"
    by blast
  have o: "is_position_open demo_maximize_open_late" "is_position_open demo_maximize_open"
    "\<not> isnan (sma (bar 1 102 100 101 (1 / 4) 30))"
    by (simp_all add: demo_maximize_open_late_def demo_maximize_open_def bar_def)
  from c o have v: "fgt (Fin (high (bar 1 102 100 101 (1 / 4) 30))) (sma (bar 1 102 100 101 (1 / 4) 30))"
    "flt (rsi (bar 1 102 100 101 (1 / 4) 30)) (Fin (rsi_overbought (demo_params NO_CLASSIFIER)))"
    "fgt (adx (bar 1 102 100 101 (1 / 4) 30)) (Fin 10)"
    by blast+
  have h: "\<not> use_classifier (demo_params BASELINE)"
    "current_trend (initial_state (bar 0 102 100 101 (1 / 4) 30)) = - 1"
    "\<not> isnan (sma (bar 0 102 100 101 (1 / 4) 30))"
    "\<not> is_trading_paused (advanced_gate (demo_params BASELINE)
          (initial_state (bar 0 102 100 101 (1 / 4) 30)) (bar 0 102 100 101 (1 / 4) 30))"
    "high (bar 0 102 100 101 (1 / 4) 30)
        \<ge> min (last_extreme (initial_state (bar 0 102 100 101 (1 / 4) 30)))
              (low (bar 0 102 100 101 (1 / 4) 30))
            * (1 + dc_threshold (demo_params BASELINE))"
    by (simp_all add: use_classifier_def use_volatility_filter_def demo_params_simps
        initial_state_def bar_def advanced_gate_def)
  note e = demo_entry_any_adx[of 30 BASELINE, simplified]
  from relaxed_tier[where p = "demo_params BASELINE"
      and r = "bar 0 102 100 101 (1 / 4) 30" and i = 0
      and a = "initial_state (bar 0 102 100 101 (1 / 4) 30)"] h
  have b: "is_position_open (advanced_step (demo_params BASELINE)
        (initial_state (bar 0 102 100 101 (1 / 4) 30)) 0 (bar 0 102 100 101 (1 / 4) 30))"
    by blast
  from n(1,2,3,4,7) demo_maximize_paused_reached demo_maximize_entry_after_pause o(1,2) v
    h(1,2) e b
  show ?thesis
    by (intro conjI)
qed

theorem relaxed_tier_counterexample:
  "\<not> use_classifier (demo_params BASELINE)
   \<and> current_trend (initial_state (bar 0 102 100 101 (1 / 4) 5)) = - 1
   \<and> advanced_step (demo_params BASELINE) (initial_state (bar 0 102 100 101 (1 / 4) 5)) 0
        (bar 0 102 100 101 (1 / 4) 5) = demo_advanced_open
   \<and> is_position_open demo_advanced_open
   \<and> \<not> fgt (adx (bar 0 102 100 101 (1 / 4) 5)) (Fin 10)
   \<and> \<not> relaxed_pass (demo_params BASELINE) (bar 0 102 100 101 (1 / 4) 5)"
proof -
  have h: "\<not> use_classifier (demo_params BASELINE)"
    "current_trend (initial_state (bar 0 102 100 101 (1 / 4) 5)) = - 1"
    "is_position_open demo_advanced_open"
    "\<not> fgt (adx (bar 0 102 100 101 (1 / 4) 5)) (Fin 10)"
    "\<not> relaxed_pass (demo_params BASELINE) (bar 0 102 100 101 (1 / 4) 5)"
    by (simp_all add: use_classifier_def demo_params_simps initial_state_def
        demo_advanced_open_def bar_def relaxed_pass_def)
  from h demo_advanced_entry_baseline[of 5] show ?thesis
    by (intro conjI)
qed

subsection \<open>C5: the force-close at the end of the frame\<close>

text \<open>
  Claim C5, as amended. After the last bar of every run, a position that is still open is
  force-closed at the final bar's close price with
  \<open>pnl = (final close - entry_price) * volume\<close>. The trade record receives the same keys
  as at a signal exit (exit_price, pnl and exit_idx in \<^verbatim>\<open>MaximizePnLBot\<close>; exit_date,
  exit_price and pnl in \<^verbatim>\<open>AdvancedDCBot\<close>): every record of the returned ledger has
  exactly these keys after those of its entry, and none of them marks how the trade was
  closed.
\<close>

theorem force_close_at_final_close:
  "(maximize_loop p 0 (r0 # rest) (initial_state r0) = Inr s \<and> is_position_open s \<longrightarrow>
      (\<exists>s'. maximize_final p (r0 # rest) = Inr s'
         \<and> total_pnl s' = total_pnl s + (close (last (r0 # rest)) - entry_price s) * volume p
         \<and> trades s' = butlast (trades s) @
              [dict_update (last (trades s))
                 [(''exit_price'', Float (close (last (r0 # rest)))),
                  (''pnl'', Float ((close (last (r0 # rest)) - entry_price s) * volume p)),
                  (''exit_idx'', Index (length rest))]]))
   \<and> (maximize_final p df = Inr f \<longrightarrow>
        list_all (\<lambda>t. map fst t
            = [''entry_price'', ''entry_idx'', ''exit_price'', ''pnl'', ''exit_idx''])
          (trades f))
   \<and> (advanced_loop p 0 (r0 # rest) (initial_state r0) = a \<and> is_position_open a \<longrightarrow>
        total_pnl (advanced_final p r0 rest)
          = total_pnl a + (close (last (r0 # rest)) - entry_price a) * volume p
        \<and> trades (advanced_final p r0 rest) = trades a @
              [dict_update (trade a)
                 [(''exit_date'', Timestamp (date (last (r0 # rest)))),
                  (''exit_price'', Float (close (last (r0 # rest)))),
                  (''pnl'', Float ((close (last (r0 # rest)) - entry_price a) * volume p))]])
   \<and> list_all (\<lambda>t. map fst t
            = [''entry_date'', ''entry_price'', ''pnl'', ''exit_date'', ''exit_price''])
        (trades (advanced_final p r0 rest))"
proof (intro conjI impI)
  assume h: "maximize_loop p 0 (r0 # rest) (initial_state r0) = Inr s \<and> is_position_open s"
  then have inv: "maximize_inv p s"
    using maximize_inv_initial maximize_loop_inv by blast
  from maximize_force_close_open[OF inv, of "r0 # rest"] h
  obtain ts i where ts: "trades s = ts @ [maximize_open_trade (entry_price s) i]"
    and fc: "maximize_force_close p (r0 # rest) s =
               Inr (s\<lparr>total_pnl := total_pnl s
                          + (close (last (r0 # rest)) - entry_price s) * volume p,
                      trades := ts @ [maximize_closed_trade (entry_price s) i
                                       (close (last (r0 # rest)))
                                       ((close (last (r0 # rest)) - entry_price s) * volume p)
                                       (length (r0 # rest) - 1)],
                      events := events s @ [ForceClosed (length (r0 # rest) - 1)]\<rparr>)"
    by auto
  have fin: "maximize_final p (r0 # rest) = maximize_force_close p (r0 # rest) s"
    using h by (simp add: maximize_final_def maximize_init_def del: maximize_loop.simps)
  show "\<exists>s'. maximize_final p (r0 # rest) = Inr s'
         \<and> total_pnl s' = total_pnl s + (close (last (r0 # rest)) - entry_price s) * volume p
         \<and> trades s' = butlast (trades s) @
              [dict_update (last (trades s))
                 [(''exit_price'', Float (close (last (r0 # rest)))),
                  (''pnl'', Float ((close (last (r0 # rest)) - entry_price s) * volume p)),
                  (''exit_idx'', Index (length rest))]]"
    unfolding fin fc using ts by (simp add: dict_update_maximize)
next
  assume "maximize_final p df = Inr f"
  from maximize_final_inv[OF this] maximize_closed_facts
  show "list_all (\<lambda>t. map fst t
            = [''entry_price'', ''entry_idx'', ''exit_price'', ''pnl'', ''exit_idx''])
          (trades f)"
    by (auto simp: maximize_final_ok_def list_all_iff)
next
  assume h: "advanced_loop p 0 (r0 # rest) (initial_state r0) = a \<and> is_position_open a"
  then show "total_pnl (advanced_final p r0 rest)
          = total_pnl a + (close (last (r0 # rest)) - entry_price a) * volume p"
    and "trades (advanced_final p r0 rest) = trades a @
              [dict_update (trade a)
                 [(''exit_date'', Timestamp (date (last (r0 # rest)))),
                  (''exit_price'', Float (close (last (r0 # rest)))),
                  (''pnl'', Float ((close (last (r0 # rest)) - entry_price a) * volume p))]]"
    by (simp_all add: advanced_final_def advanced_force_close_def Let_def
        del: advanced_loop.simps)
next
  from advanced_final_inv[of p r0 rest] advanced_closed_facts
  show "list_all (\<lambda>t. map fst t
            = [''entry_date'', ''entry_price'', ''pnl'', ''exit_date'', ''exit_price''])
        (trades (advanced_final p r0 rest))"
    by (auto simp: advanced_final_ok_def list_all_iff)
qed

theorem force_close_at_final_close_witness:
  "maximize_loop (demo_params FULL_AI) 0 demo_forced (initial_state (bar 0 102 100 101 (1 / 4) 30))
     = Inr demo_maximize_held
   \<and> is_position_open demo_maximize_held
   \<and> maximize_final (demo_params FULL_AI) demo_forced = Inr demo_maximize_forced
   \<and> list_all (\<lambda>t. map fst t
            = [''entry_price'', ''entry_idx'', ''exit_price'', ''pnl'', ''exit_idx''])
        (trades demo_maximize_forced)
   \<and> advanced_loop (demo_params FULL_AI) 0 demo_forced
        (initial_state (bar 0 102 100 101 (1 / 4) 30)) = demo_advanced_held
   \<and> is_position_open demo_advanced_held
   \<and> total_pnl (advanced_final (demo_params FULL_AI) (bar 0 102 100 101 (1 / 4) 30)
        [bar 1 105 105 105 (1 / 4) 30])
       = total_pnl demo_advanced_held
         + (close (last [bar 0 102 100 101 (1 / 4) 30, bar 1 105 105 105 (1 / 4) 30])
            - entry_price demo_advanced_held) * volume (demo_params FULL_AI)"
proof -
  have o: "is_position_open demo_maximize_held" "is_position_open demo_advanced_held"
    by (simp_all add: demo_maximize_held_def demo_maximize_open_def
        demo_advanced_held_def demo_advanced_open_def)
  note l = maximize_demo_forced_loop[unfolded demo_forced_def]
    and l' = advanced_demo_forced_loop[unfolded demo_forced_def]
  from force_close_at_final_close[where p = "demo_params FULL_AI"
      and ?r0.0 = "bar 0 102 100 101 (1 / 4) 30" and rest = "[bar 1 105 105 105 (1 / 4) 30]"
      and s = demo_maximize_held and df = demo_forced and f = demo_maximize_forced
      and a = demo_advanced_held]
    o l l' maximize_demo_forced
  have "list_all (\<lambda>t. map fst t
            = [''entry_price'', ''entry_idx'', ''exit_price'', ''pnl'', ''exit_idx''])
        (trades demo_maximize_forced)"
    and "total_pnl (advanced_final (demo_params FULL_AI) (bar 0 102 100 101 (1 / 4) 30)
        [bar 1 105 105 105 (1 / 4) 30])
       = total_pnl demo_advanced_held
         + (close (last [bar 0 102 100 101 (1 / 4) 30, bar 1 105 105 105 (1 / 4) 30])
            - entry_price demo_advanced_held) * volume (demo_params FULL_AI)"
    by blast+
  with o maximize_demo_forced_loop advanced_demo_forced_loop maximize_demo_forced
  show ?thesis
    by (intro conjI)
qed

theorem forced_flag_counterexample:
  "maximize_final (demo_params FULL_AI) demo_signal = Inr demo_maximize_done
   \<and> events demo_maximize_done = [Opened 0, Closed 1]
   \<and> maximize_final (demo_params FULL_AI) demo_forced = Inr demo_maximize_forced
   \<and> events demo_maximize_forced = [Opened 0, ForceClosed 1]
   \<and> trades demo_maximize_forced = trades demo_maximize_done
   \<and> advanced_final (demo_params FULL_AI) (bar 0 102 100 101 (1 / 4) 30)
        [bar 1 110 105 106 (1 / 4) 30] = demo_advanced_done
   \<and> events demo_advanced_done = [Opened 0, Closed 1]
   \<and> advanced_final (demo_params FULL_AI) (bar 0 102 100 101 (1 / 4) 30)
        [bar 1 105 105 105 (1 / 4) 30] = demo_advanced_forced
   \<and> events demo_advanced_forced = [Opened 0, ForceClosed 1]
   \<and> trades demo_advanced_forced = trades demo_advanced_done"
proof -
  have e: "events demo_maximize_done = [Opened 0, Closed 1]"
    "events demo_maximize_forced = [Opened 0, ForceClosed 1]"
    "trades demo_maximize_forced = trades demo_maximize_done"
    "events demo_advanced_done = [Opened 0, Closed 1]"
    "events demo_advanced_forced = [Opened 0, ForceClosed 1]"
    "trades demo_advanced_forced = trades demo_advanced_done"
    by (simp_all add: demo_maximize_done_def demo_maximize_forced_def
        demo_advanced_done_def demo_advanced_forced_def)
  from e maximize_demo_signal maximize_demo_forced advanced_demo_signal advanced_demo_forced
  show ?thesis
    by (intro conjI)
qed

subsection \<open>C6: at most one open position\<close>

text \<open>
  Claim C6. For every bar sequence and configuration, at most one position is open at any
  point of the run. Replaying the entry, exit and force-close events of any prefix of a run
  never opens a position while one is open and never closes one while none is open, and
  ends in the state of the open flag (\<open>position_trace\<close>); after the run no position is left
  open. In the ledger of \<^verbatim>\<open>MaximizePnLBot\<close>, which receives a trade at its entry, every
  trade but the last is closed and the last is open exactly while the flag is set; the
  ledger of \<^verbatim>\<open>AdvancedDCBot\<close>, which receives a trade at its exit, holds closed trades only.
\<close>

theorem at_most_one_open_position:
  "(maximize_loop p 0 pre (initial_state r0) = Inr s \<longrightarrow>
       position_trace (events s) = Some (is_position_open s)
       \<and> open_trades (trades s) = (if is_position_open s then 1 else 0)
       \<and> list_all is_closed (butlast (trades s)))
   \<and> (maximize_final p df = Inr s' \<longrightarrow>
       position_trace (events s') = Some False \<and> open_trades (trades s') = 0)
   \<and> position_trace (events (advanced_loop p 0 pre (initial_state r0)))
       = Some (is_position_open (advanced_loop p 0 pre (initial_state r0)))
   \<and> open_trades (trades (advanced_loop p 0 pre (initial_state r0))) = 0
   \<and> position_trace (events (advanced_final p r0 rest)) = Some False
   \<and> open_trades (trades (advanced_final p r0 rest)) = 0"
proof (intro conjI impI)
  assume "maximize_loop p 0 pre (initial_state r0) = Inr s"
  then have "maximize_inv p s"
    using maximize_inv_initial by (rule maximize_loop_inv[rotated])
  from maximize_inv_ledger[OF this]
  show "position_trace (events s) = Some (is_position_open s)"
    and "open_trades (trades s) = (if is_position_open s then 1 else 0)"
    and "list_all is_closed (butlast (trades s))"
    by simp_all
next
  assume "maximize_final p df = Inr s'"
  from maximize_final_inv[OF this]
  show "position_trace (events s') = Some False" and "open_trades (trades s') = 0"
    by (auto simp: maximize_final_ok_def maximize_closed_all)
next
  have "advanced_inv p (advanced_loop p 0 pre (initial_state r0))"
    by (intro advanced_loop_inv advanced_inv_initial)
  from advanced_inv_ledger[OF this]
  show "position_trace (events (advanced_loop p 0 pre (initial_state r0)))
       = Some (is_position_open (advanced_loop p 0 pre (initial_state r0)))"
    and "open_trades (trades (advanced_loop p 0 pre (initial_state r0))) = 0"
    by simp_all
next
  from advanced_final_inv[of p r0 rest]
  show "position_trace (events (advanced_final p r0 rest)) = Some False"
    and "open_trades (trades (advanced_final p r0 rest)) = 0"
    by (auto simp: advanced_final_ok_def advanced_closed_all)
qed

theorem at_most_one_open_position_witness:
  "maximize_loop (demo_params FULL_AI) 0 demo_forced (initial_state (bar 0 102 100 101 (1 / 4) 30))
     = Inr demo_maximize_held
   \<and> position_trace (events demo_maximize_held) = Some True
   \<and> open_trades (trades demo_maximize_held) = 1
   \<and> list_all is_closed (butlast (trades demo_maximize_held))
   \<and> maximize_final (demo_params FULL_AI) demo_forced = Inr demo_maximize_forced
   \<and> position_trace (events demo_maximize_forced) = Some False
   \<and> open_trades (trades demo_maximize_forced) = 0
   \<and> position_trace (events demo_advanced_held) = Some True
   \<and> position_trace (events demo_advanced_forced) = Some False"
proof -
  note loop = maximize_demo_forced_loop and fin = maximize_demo_forced
  have o: "is_position_open demo_maximize_held" "is_position_open demo_advanced_held"
    by (simp_all add: demo_maximize_held_def demo_maximize_open_def
        demo_advanced_held_def demo_advanced_open_def)
  from at_most_one_open_position[where p = "demo_params FULL_AI" and pre = demo_forced
      and ?r0.0 = "bar 0 102 100 101 (1 / 4) 30" and s = demo_maximize_held
      and df = demo_forced and s' = demo_maximize_forced
      and rest = "[bar 1 105 105 105 (1 / 4) 30]"]
    loop fin o advanced_demo_forced_loop advanced_demo_forced
  show ?thesis by simp
qed

subsection \<open>C7: the total is the sum of the ledger\<close>

text \<open>
  Claim C7. For every run, the total PnL returned equals the sum of the pnl of the closed
  trades of the returned ledger, every trade of the returned ledger is closed (none stays
  open past the end of the run), and its pnl is \<open>(exit_price - entry_price) * volume\<close>.
  For \<^verbatim>\<open>MaximizePnLBot\<close> this is about every run that returns.
\<close>

theorem total_pnl_is_ledger_sum:
  "(maximize_backtest p df = Inr (tot, led) \<longrightarrow>
      tot = ledger_pnl led \<and> list_all (\<lambda>t. is_closed t \<and> pnl_exact p t) led)
   \<and> (advanced_backtest p df = (tot', led') \<longrightarrow>
      tot' = ledger_pnl led' \<and> list_all (\<lambda>t. is_closed t \<and> pnl_exact p t) led')"
proof (intro conjI impI)
  assume "maximize_backtest p df = Inr (tot, led)"
  then obtain s where s: "maximize_final p df = Inr s" "tot = total_pnl s" "led = trades s"
    by (auto simp: maximize_backtest_def split: sum.splits)
  from maximize_final_inv[OF s(1)] have ok: "maximize_final_ok p s" .
  with s show "tot = ledger_pnl led" by (simp add: maximize_final_ok_def)
  from ok have "list_all (maximize_closed p) led"
    by (simp add: maximize_final_ok_def s)
  then show "list_all (\<lambda>t. is_closed t \<and> pnl_exact p t) led"
    by (auto simp: list_all_iff maximize_closed_facts)
next
  assume a: "advanced_backtest p df = (tot', led')"
  show "tot' = ledger_pnl led'"
  proof (cases df)
    case Nil
    with a show ?thesis by (simp add: advanced_backtest_def ledger_pnl_nil)
  next
    case (Cons r0 rest)
    with a advanced_final_inv[of p r0 rest] show ?thesis
      by (auto simp: advanced_backtest_def Let_def advanced_final_ok_def)
  qed
  show "list_all (\<lambda>t. is_closed t \<and> pnl_exact p t) led'"
  proof (cases df)
    case Nil
    with a show ?thesis by (auto simp: advanced_backtest_def)
  next
    case (Cons r0 rest)
    with a advanced_final_inv[of p r0 rest] have "list_all (advanced_closed p) led'"
      by (auto simp: advanced_backtest_def Let_def advanced_final_ok_def)
    then show ?thesis
      by (auto simp: list_all_iff advanced_closed_facts)
  qed
qed

theorem total_pnl_is_ledger_sum_witness:
  "maximize_backtest (demo_params FULL_AI) demo_signal
     = Inr (300, [maximize_closed_trade 102 0 105 300 1])
   \<and> 300 = ledger_pnl [maximize_closed_trade 102 0 105 300 1]
   \<and> list_all (\<lambda>t. is_closed t \<and> pnl_exact (demo_params FULL_AI) t)
        [maximize_closed_trade 102 0 105 300 1]
   \<and> advanced_backtest (demo_params FULL_AI) demo_signal
     = (300, [advanced_closed_trade 0 102 300 1 105])
   \<and> 300 = ledger_pnl [advanced_closed_trade 0 102 300 1 105]
   \<and> list_all (\<lambda>t. is_closed t \<and> pnl_exact (demo_params FULL_AI) t)
        [advanced_closed_trade 0 102 300 1 105]"
  using total_pnl_is_ledger_sum[where p = "demo_params FULL_AI" and df = demo_signal
      and tot = 300 and led = "[maximize_closed_trade 102 0 105 300 1]"
      and tot' = 300 and led' = "[advanced_closed_trade 0 102 300 1 105]"]
    maximize_demo_backtest(1) advanced_demo_backtest(1)
  by blast

subsection \<open>C8: the two overshoot divisions\<close>

text \<open>
  Claim C8. The entry overshoot \<open>(high - old_extreme) / old_extreme\<close> and the position
  overshoot \<open>(high - entry_price) / entry_price\<close> are guarded against a zero denominator.
  \<^verbatim>\<open>AdvancedDCBot\<close> substitutes 0; \<^verbatim>\<open>MaximizePnLBot\<close> divides unguarded. On a frame whose
  first low is 0 the run of \<^verbatim>\<open>MaximizePnLBot\<close> divides by zero at the entry, and after an
  entry at price 0 it divides by zero on the next bar, where \<^verbatim>\<open>AdvancedDCBot\<close> completes
  both runs.
\<close>

theorem maximize_divides_by_zero:
  "maximize_backtest (demo_params FULL_AI) [demo_zero] = Inl ZeroDivision
   \<and> advanced_backtest (demo_params FULL_AI) [demo_zero]
       = (- 50, [advanced_closed_trade 0 1 (- 50) 0 (1 / 2)])
   \<and> maximize_backtest (demo_params FULL_AI) [demo_below, demo_zero\<lparr>date := 1\<rparr>]
       = Inl ZeroDivision
   \<and> advanced_backtest (demo_params FULL_AI) [demo_below, demo_zero\<lparr>date := 1\<rparr>]
       = (0, [advanced_closed_trade 0 0 0 1 0])"
  using demo_zero_maximize demo_zero_advanced demo_below_maximize demo_below_advanced
  by (intro conjI)

subsection \<open>C9: the empty frame\<close>

text \<open>
  Claim C9, as amended. On an empty frame \<^verbatim>\<open>AdvancedDCBot.run_backtest\<close> returns zero
  PnL and no trades; \<^verbatim>\<open>MaximizePnLBot\<close> rejects the frame with a ValueError when the bot
  is constructed, before any pass.
\<close>

theorem empty_frame:
  "advanced_backtest p [] = (0, []) \<and> maximize_backtest p [] = Inl ValueError"
  by (simp add: advanced_backtest_def maximize_backtest_def maximize_final_def
      maximize_init_def)

theorem empty_frame_counterexample:
  "maximize_backtest (demo_params FULL_AI) [] = Inl ValueError
   \<and> maximize_backtest (demo_params FULL_AI) [] \<noteq> Inr (0, [])"
  by (simp add: maximize_backtest_def maximize_final_def maximize_init_def)

subsection \<open>C10: the overshoot maximum never decreases\<close>

text \<open>
  Claim C10. \<open>max_overshoot\<close> starts at the floor 0.0001 and is non-decreasing over the
  entire run, across exits and new Up legs: over any stretch of bars, from any state, its
  value at the end is at least its value at the start. So, for a configuration with
  \<open>dc_threshold * y_value \<ge> 0\<close>, the dynamic exit threshold of a later bar is at most that
  of any earlier bar.
\<close>

theorem max_overshoot_never_decreases:
  "max_overshoot (initial_state r0) = 1 / 10000
   \<and> (maximize_loop p i df s = Inr s' \<longrightarrow>
        max_overshoot s \<le> max_overshoot s'
        \<and> (0 \<le> dc_threshold p * y_value p \<longrightarrow>
             dynamic_exit_threshold p (max_overshoot s') \<le> dynamic_exit_threshold p (max_overshoot s)))
   \<and> max_overshoot s \<le> max_overshoot (advanced_loop p i df s)
   \<and> (0 \<le> dc_threshold p * y_value p \<longrightarrow>
        dynamic_exit_threshold p (max_overshoot (advanced_loop p i df s))
          \<le> dynamic_exit_threshold p (max_overshoot s))"
  by (auto simp: initial_state_def maximize_loop_overshoot advanced_loop_overshoot
      intro: threshold_antimono)

theorem max_overshoot_never_decreases_witness:
  "maximize_loop (demo_params FULL_AI) 0 demo_signal (initial_state (bar 0 102 100 101 (1 / 4) 30))
     = Inr demo_maximize_done
   \<and> 0 \<le> dc_threshold (demo_params FULL_AI) * y_value (demo_params FULL_AI)
   \<and> max_overshoot (initial_state (bar 0 102 100 101 (1 / 4) 30)) = 1 / 10000
   \<and> max_overshoot demo_maximize_done = 4 / 51
   \<and> dynamic_exit_threshold (demo_params FULL_AI) (4 / 51)
        \<le> dynamic_exit_threshold (demo_params FULL_AI) (1 / 10000)
   \<and> advanced_loop (demo_params FULL_AI) 0 demo_signal
        (initial_state (bar 0 102 100 101 (1 / 4) 30)) = demo_advanced_done
   \<and> max_overshoot demo_advanced_done = 4 / 51"
proof -
  have p: "0 \<le> dc_threshold (demo_params FULL_AI) * y_value (demo_params FULL_AI)"
    by (simp add: demo_params_simps)
  have m: "max_overshoot demo_maximize_done = 4 / 51" "max_overshoot demo_advanced_done = 4 / 51"
    by (simp_all add: demo_maximize_done_def demo_advanced_done_def)
  from max_overshoot_never_decreases[where ?r0.0 = "bar 0 102 100 101 (1 / 4) 30"
      and p = "demo_params FULL_AI" and i = 0 and df = demo_signal
      and s = "initial_state (bar 0 102 100 101 (1 / 4) 30)" and s' = demo_maximize_done]
    maximize_demo_signal_loop p
  have i: "max_overshoot (initial_state (bar 0 102 100 101 (1 / 4) 30)) = 1 / 10000"
    and t: "dynamic_exit_threshold (demo_params FULL_AI) (max_overshoot demo_maximize_done)
        \<le> dynamic_exit_threshold (demo_params FULL_AI)
            (max_overshoot (initial_state (bar 0 102 100 101 (1 / 4) 30)))"
    by blast+
  note t' = t[unfolded m i]
  from maximize_demo_signal_loop advanced_demo_signal_loop p m i t' show ?thesis
    by (intro conjI)
qed

end
